theory Spec2Isabelle
  imports Main "HOL-Library.Code_Target_Nat"
begin

section \<open>Characters and percent-encoding\<close>

text \<open>
  Strings are byte strings: a JavaScript string is read as its UTF-8 encoding, so that
  the URL parser's "UTF-8 percent-encode" of a code point beyond ASCII is the
  percent-encoding of each of its bytes.
\<close>

definition codePoint :: "char \<Rightarrow> nat" where
  "codePoint c = of_char c"

definition isUpperAlpha :: "char \<Rightarrow> bool" where
  "isUpperAlpha c = (65 \<le> codePoint c \<and> codePoint c \<le> 90)"

definition isLowerAlpha :: "char \<Rightarrow> bool" where
  "isLowerAlpha c = (97 \<le> codePoint c \<and> codePoint c \<le> 122)"

definition isAlpha :: "char \<Rightarrow> bool" where
  "isAlpha c = (isUpperAlpha c \<or> isLowerAlpha c)"

definition isDigit :: "char \<Rightarrow> bool" where
  "isDigit c = (48 \<le> codePoint c \<and> codePoint c \<le> 57)"

definition isAlnum :: "char \<Rightarrow> bool" where
  "isAlnum c = (isAlpha c \<or> isDigit c)"

definition isHexDigit :: "char \<Rightarrow> bool" where
  "isHexDigit c = (isDigit c \<or> (65 \<le> codePoint c \<and> codePoint c \<le> 70) \<or> (97 \<le> codePoint c \<and> codePoint c \<le> 102))"

definition toLower :: "char \<Rightarrow> char" where
  "toLower c = (if isUpperAlpha c then char_of (codePoint c + 32) else c)"

definition asciiLowercase :: "string \<Rightarrow> string" where
  "asciiLowercase s = map toLower s"

definition digitVal :: "char \<Rightarrow> nat" where
  "digitVal c =
     (if isDigit c then codePoint c - 48
      else if isUpperAlpha c then codePoint c - 55
      else codePoint c - 87)"

definition hexChar :: "nat \<Rightarrow> char" where
  "hexChar n = (if n < 10 then char_of (48 + n) else char_of (55 + n))"

definition percentEncodeByte :: "char \<Rightarrow> string" where
  "percentEncodeByte c = [CHR ''%'', hexChar (codePoint c div 16), hexChar (codePoint c mod 16)]"

definition percentEncode :: "(char \<Rightarrow> bool) \<Rightarrow> string \<Rightarrow> string" where
  "percentEncode inSet s = concat (map (\<lambda>c. if inSet c then percentEncodeByte c else [c]) s)"

fun percentDecode :: "string \<Rightarrow> string" where
  "percentDecode (c # h # l # rest) =
     (if c = CHR ''%'' \<and> isHexDigit h \<and> isHexDigit l
      then char_of (16 * digitVal h + digitVal l) # percentDecode rest
      else c # percentDecode (h # l # rest))"
| "percentDecode s = s"

text \<open>The percent-encode sets of the URL Standard.\<close>

definition c0ControlSet :: "char \<Rightarrow> bool" where
  "c0ControlSet c = (codePoint c \<le> 31 \<or> codePoint c > 126)"

definition fragmentSet :: "char \<Rightarrow> bool" where
  "fragmentSet c = (c0ControlSet c \<or> c \<in> set [CHR '' '', CHR 0x22, CHR ''<'', CHR ''>'', CHR 0x60])"

definition querySet :: "char \<Rightarrow> bool" where
  "querySet c = (c0ControlSet c \<or> c \<in> set [CHR '' '', CHR 0x22, CHR ''#'', CHR ''<'', CHR ''>''])"

definition specialQuerySet :: "char \<Rightarrow> bool" where
  "specialQuerySet c = (querySet c \<or> c = CHR 0x27)"

definition pathSet :: "char \<Rightarrow> bool" where
  "pathSet c = (querySet c \<or> c \<in> set [CHR ''?'', CHR ''^'', CHR 0x60, CHR ''{'', CHR ''}''])"


section \<open>Host parsing\<close>

primrec splitOn :: "(char \<Rightarrow> bool) \<Rightarrow> string \<Rightarrow> string list" where
  "splitOn P [] = [[]]"
| "splitOn P (x # xs) =
     (if P x then [] # splitOn P xs
      else (case splitOn P xs of [] \<Rightarrow> [[x]] | s # ss \<Rightarrow> (x # s) # ss))"

definition parseRadix :: "nat \<Rightarrow> string \<Rightarrow> nat" where
  "parseRadix R s = foldl (\<lambda>acc c. acc * R + digitVal c) 0 s"

definition isRadixDigit :: "nat \<Rightarrow> char \<Rightarrow> bool" where
  "isRadixDigit R c =
     (if R = 16 then isHexDigit c
      else if R = 10 then isDigit c
      else (48 \<le> codePoint c \<and> codePoint c \<le> 55))"

fun showNat :: "nat \<Rightarrow> string" where
  "showNat n = (if n < 10 then [hexChar n] else showNat (n div 10) @ [hexChar (n mod 10)])"

fun showHex :: "nat \<Rightarrow> string" where
  "showHex n =
     (if n < 16 then [toLower (hexChar n)]
      else showHex (n div 16) @ [toLower (hexChar (n mod 16))])"

definition ipv4NumberParser :: "string \<Rightarrow> nat option" where
  "ipv4NumberParser input =
     (if input = [] then None
      else
        let (inp, R) =
              (if 2 \<le> length input \<and> (take 2 input = ''0x'' \<or> take 2 input = ''0X'')
               then (drop 2 input, 16::nat)
               else if 2 \<le> length input \<and> hd input = CHR ''0'' then (tl input, 8)
               else (input, 10))
        in if inp = [] then Some 0
           else if \<not> list_all (isRadixDigit R) inp then None
           else Some (parseRadix R inp))"

definition ipv4Parts :: "string \<Rightarrow> string list" where
  \<comment> \<open>split on dots; one trailing empty part is dropped when there is more than one part\<close>
  "ipv4Parts input =
     (let parts = splitOn (\<lambda>c. c = CHR ''.'') input
      in if last parts = [] \<and> 1 < length parts then butlast parts else parts)"

definition endsInANumber :: "string \<Rightarrow> bool" where
  "endsInANumber input =
     (let parts = splitOn (\<lambda>c. c = CHR ''.'') input
      in if last parts = [] \<and> length parts = 1 then False
         else
           let l = last (if last parts = [] then butlast parts else parts)
           in (l \<noteq> [] \<and> list_all isDigit l) \<or> ipv4NumberParser l \<noteq> None)"

definition ipv4Parser :: "string \<Rightarrow> nat option" where
  "ipv4Parser input =
     (let parts = ipv4Parts input
      in if 4 < length parts then None
         else
           let results = map ipv4NumberParser parts
           in if None \<in> set results then None
              else
                let numbers = map the results
                in if list_ex (\<lambda>n. 255 < n) (butlast numbers) then None
                   else if 256 ^ (5 - length numbers) \<le> last numbers then None
                   else Some (last numbers
                        + sum_list (map (\<lambda>(i, n). n * 256 ^ (3 - i))
                            (zip [0 ..< length numbers - 1] (butlast numbers)))))"

definition ipv4Serializer :: "nat \<Rightarrow> string" where
  "ipv4Serializer a =
     showNat (a div 16777216 mod 256) @ ''.'' @ showNat (a div 65536 mod 256) @ ''.''
       @ showNat (a div 256 mod 256) @ ''.'' @ showNat (a mod 256)"

text \<open>
  The IPv6 parser, one character at a time. \<open>pieces\<close> holds the pieces read so
  far (its length is the standard's pieceIndex), \<open>compress\<close> the index where
  \<open>::\<close> was seen, \<open>run\<close> the hexadecimal digits of the piece being read, and
  \<open>afterSep\<close> says that a separating colon was just read, after which the input must
  go on.
\<close>

definition ipv4InIpv6 :: "string \<Rightarrow> nat list option" where
  \<comment> \<open>four dotted decimal numbers up to 255 without leading zeros, as two 16-bit pieces\<close>
  "ipv4InIpv6 s =
     (let parts = splitOn (\<lambda>c. c = CHR ''.'') s
      in if length parts \<noteq> 4 then None
         else if \<not> list_all (\<lambda>p. p \<noteq> [] \<and> list_all isDigit p
                    \<and> (length p = 1 \<or> hd p \<noteq> CHR ''0'') \<and> parseRadix 10 p \<le> 255) parts
         then None
         else
           let ns = map (parseRadix 10) parts
           in Some [ns ! 0 * 256 + ns ! 1, ns ! 2 * 256 + ns ! 3])"

fun ipv6Loop :: "nat list \<Rightarrow> nat option \<Rightarrow> string \<Rightarrow> bool \<Rightarrow> string \<Rightarrow> (nat list \<times> nat option) option" where
  "ipv6Loop pieces compress run afterSep [] =
     (if run \<noteq> [] then Some (pieces @ [parseRadix 16 run], compress)
      else if afterSep then None
      else Some (pieces, compress))"
| "ipv6Loop pieces compress run afterSep (c # cs) =
     (if run = [] then
        (if length pieces = 8 then None
         else if c = CHR '':'' then
           (if compress \<noteq> None then None
            else ipv6Loop (pieces @ [0]) (Some (Suc (length pieces))) [] False cs)
         else if isHexDigit c then ipv6Loop pieces compress [c] False cs
         else None)
      else if isHexDigit c \<and> length run < 4 then ipv6Loop pieces compress (run @ [c]) False cs
      else if c = CHR ''.'' then
        (if 6 < length pieces then None
         else (case ipv4InIpv6 (run @ c # cs) of
                 None \<Rightarrow> None
               | Some two \<Rightarrow> Some (pieces @ two, compress)))
      else if c = CHR '':'' then ipv6Loop (pieces @ [parseRadix 16 run]) compress [] True cs
      else None)"

definition ipv6Parser :: "string \<Rightarrow> nat list option" where
  "ipv6Parser input =
     (let start =
            (if input \<noteq> [] \<and> hd input = CHR '':'' then
               (if take 2 input = ''::'' then ipv6Loop [0] (Some 1) [] False (drop 2 input)
                else None)
             else ipv6Loop [] None [] False input)
      in (case start of
            None \<Rightarrow> None
          | Some (pieces, compress) \<Rightarrow>
              (case compress of
                 Some k \<Rightarrow> Some (take k pieces @ replicate (8 - length pieces) 0 @ drop k pieces)
               | None \<Rightarrow> if length pieces \<noteq> 8 then None else Some pieces)))"

definition zeroRun :: "nat list \<Rightarrow> nat \<Rightarrow> nat" where
  "zeroRun a i = length (takeWhile (\<lambda>x. x = 0) (drop i a))"

definition joinWith :: "string \<Rightarrow> string list \<Rightarrow> string" where
  "joinWith sep xs = (case xs of [] \<Rightarrow> [] | x # r \<Rightarrow> x @ concat (map (\<lambda>y. sep @ y) r))"

definition ipv6Serializer :: "nat list \<Rightarrow> string" where
  "ipv6Serializer a =
     (let longest = fold max (map (zeroRun a) [0 ..< 8]) 0
      in if longest \<le> 1 then joinWith '':'' (map showHex a)
         else
           let k = length (takeWhile (\<lambda>i. zeroRun a i \<noteq> longest) [0 ..< 8])
           in concat (map (\<lambda>p. showHex p @ '':'') (take k a))
                @ (if k = 0 then ''::'' else '':'')
                @ joinWith '':'' (map showHex (drop (k + longest) a)))"

definition forbiddenHostCodePoint :: "char \<Rightarrow> bool" where
  "forbiddenHostCodePoint c =
     (c \<in> set [CHR 0x00, CHR 0x09, CHR 0x0A, CHR 0x0D, CHR '' '', CHR ''#'', CHR ''/'', CHR '':'',
               CHR ''<'', CHR ''>'', CHR ''?'', CHR ''@'', CHR ''['', CHR 0x5C, CHR '']'',
               CHR ''^'', CHR ''|''])"

definition forbiddenDomainCodePoint :: "char \<Rightarrow> bool" where
  "forbiddenDomainCodePoint c =
     (forbiddenHostCodePoint c \<or> codePoint c \<le> 31 \<or> c = CHR ''%'' \<or> codePoint c = 127)"

definition opaqueHostParser :: "string \<Rightarrow> string option" where
  "opaqueHostParser input =
     (if list_ex forbiddenHostCodePoint input then None
      else Some (percentEncode c0ControlSet input))"

definition plainAsciiDomain :: "string \<Rightarrow> bool" where
  \<comment> \<open>an ASCII string none of whose labels starts with xn-- in any letter case\<close>
  "plainAsciiDomain d =
     (list_all (\<lambda>c. codePoint c < 128) d
      \<and> list_all (\<lambda>l. asciiLowercase (take 4 l) \<noteq> ''xn--'') (splitOn (\<lambda>c. c = CHR ''.'') d))"

definition domainToASCII :: "(string \<Rightarrow> string option) \<Rightarrow> string \<Rightarrow> string option" where
  \<comment> \<open>Unicode ToASCII (UTS 46) is the platform's and is the parameter \<open>toASCII\<close>; on a
      plain ASCII domain the URL Standard says it is ASCII lowercasing, and it is not
      consulted.\<close>
  "domainToASCII toASCII d =
     (case (if plainAsciiDomain d then Some (asciiLowercase d) else toASCII d) of
        None \<Rightarrow> None
      | Some r \<Rightarrow> if r = [] \<or> list_ex forbiddenDomainCodePoint r then None else Some r)"

definition hostParser :: "(string \<Rightarrow> string option) \<Rightarrow> string \<Rightarrow> bool \<Rightarrow> string option" where
  \<comment> \<open>the result is the host in serialised form\<close>
  "hostParser toASCII input isOpaque =
     (if input \<noteq> [] \<and> hd input = CHR ''['' then
        (if last input \<noteq> CHR '']'' then None
         else map_option (\<lambda>a. ''['' @ ipv6Serializer a @ '']'') (ipv6Parser (butlast (tl input))))
      else if isOpaque then opaqueHostParser input
      else (case domainToASCII toASCII (percentDecode input) of
              None \<Rightarrow> None
            | Some d \<Rightarrow>
                if endsInANumber d then map_option ipv4Serializer (ipv4Parser d) else Some d))"


section \<open>The URL record and the basic URL parser\<close>

text \<open>
  \<open>new URL(input, base)\<close> is the platform's parser of the URL Standard. The record
  keeps the components that the getters read by the code (\<open>host\<close>,
  \<open>pathname\<close>, \<open>search\<close>, \<open>hash\<close>) depend on; the user name and the
  password are parsed over and not kept. The host is kept in serialised form.
  Each function below is named after the states of the standard's basic URL parser that
  it covers, and consumes the input that those states consume. Unicode ToASCII, which
  the host parser calls on a domain that is not plain ASCII, is the parameter
  \<open>toASCII\<close> of the parser and of everything that calls it.
\<close>

datatype urlPath = Opaque string | Segments "string list"

record url =
  urlScheme :: string
  urlHost :: "string option"
  urlPort :: "nat option"
  urlPath :: urlPath
  urlQuery :: "string option"
  urlFragment :: "string option"

definition isSpecialScheme :: "string \<Rightarrow> bool" where
  "isSpecialScheme s = (s \<in> set [''ftp'', ''file'', ''http'', ''https'', ''ws'', ''wss''])"

definition defaultPort :: "string \<Rightarrow> nat option" where
  "defaultPort s =
     (if s = ''ftp'' then Some 21
      else if s = ''http'' \<or> s = ''ws'' then Some 80
      else if s = ''https'' \<or> s = ''wss'' then Some 443
      else None)"

definition isC0ControlOrSpace :: "char \<Rightarrow> bool" where
  "isC0ControlOrSpace c = (codePoint c \<le> 32)"

definition isTabOrNewline :: "char \<Rightarrow> bool" where
  "isTabOrNewline c = (c \<in> set [CHR 0x09, CHR 0x0A, CHR 0x0D])"

definition cleanInput :: "string \<Rightarrow> string" where
  \<comment> \<open>leading and trailing C0 controls and spaces go first, then every tab and newline\<close>
  "cleanInput s =
     filter (\<lambda>c. \<not> isTabOrNewline c)
       (rev (dropWhile isC0ControlOrSpace (rev (dropWhile isC0ControlOrSpace s))))"

definition isSlash :: "char \<Rightarrow> bool" where
  "isSlash c = (c = CHR ''/'' \<or> c = CHR 0x5C)"

definition isSchemeChar :: "char \<Rightarrow> bool" where
  "isSchemeChar c = (isAlnum c \<or> c \<in> set [CHR ''+'', CHR ''-'', CHR ''.''])"

definition schemeOf :: "string \<Rightarrow> (string \<times> string) option" where
  \<comment> \<open>scheme start state and scheme state: the lowercased scheme and what follows its colon\<close>
  "schemeOf s =
     (case s of
        [] \<Rightarrow> None
      | c # cs \<Rightarrow>
          if \<not> isAlpha c then None
          else (case dropWhile isSchemeChar s of
                  [] \<Rightarrow> None
                | d # r \<Rightarrow>
                    if d = CHR '':'' then Some (asciiLowercase (takeWhile isSchemeChar s), r)
                    else None))"

definition isSingleDot :: "string \<Rightarrow> bool" where
  "isSingleDot b = (asciiLowercase b \<in> set [''.'', ''%2e''])"

definition isDoubleDot :: "string \<Rightarrow> bool" where
  "isDoubleDot b = (asciiLowercase b \<in> set [''..'', ''.%2e'', ''%2e.'', ''%2e%2e''])"

definition isWindowsDriveLetter :: "string \<Rightarrow> bool" where
  "isWindowsDriveLetter s =
     (case s of [a, b] \<Rightarrow> isAlpha a \<and> (b = CHR '':'' \<or> b = CHR ''|'') | _ \<Rightarrow> False)"

definition isNormalizedWindowsDriveLetter :: "string \<Rightarrow> bool" where
  "isNormalizedWindowsDriveLetter s =
     (case s of [a, b] \<Rightarrow> isAlpha a \<and> b = CHR '':'' | _ \<Rightarrow> False)"

definition startsWithWindowsDriveLetter :: "string \<Rightarrow> bool" where
  "startsWithWindowsDriveLetter s =
     (isWindowsDriveLetter (take 2 s)
      \<and> (length s = 2 \<or> (2 < length s \<and> s ! 2 \<in> set [CHR ''/'', CHR 0x5C, CHR ''?'', CHR ''#''])))"

definition shorten :: "string \<Rightarrow> string list \<Rightarrow> string list" where
  "shorten scheme path =
     (if scheme = ''file'' \<and> length path = 1 \<and> isNormalizedWindowsDriveLetter (hd path)
      then path else butlast path)"

definition pathSegment :: "string \<Rightarrow> string list \<Rightarrow> string \<Rightarrow> bool \<Rightarrow> string list" where
  \<comment> \<open>one round of the path state on the percent-encoded segment \<open>buffer\<close>;
      \<open>isLast\<close> says that the segment is not followed by a slash\<close>
  "pathSegment scheme path buffer isLast =
     (if isDoubleDot buffer then
        (let p = shorten scheme path in if isLast then p @ [[]] else p)
      else if isSingleDot buffer then (if isLast then path @ [[]] else path)
      else path @ [if scheme = ''file'' \<and> path = [] \<and> isWindowsDriveLetter buffer
                   then [hd buffer, CHR '':''] else buffer])"

fun pathSegments :: "string \<Rightarrow> string list \<Rightarrow> string list \<Rightarrow> string list" where
  "pathSegments scheme path [] = path"
| "pathSegments scheme path [seg] = pathSegment scheme path seg True"
| "pathSegments scheme path (seg # segs) =
     pathSegments scheme (pathSegment scheme path seg False) segs"

definition notQueryOrFragmentStart :: "char \<Rightarrow> bool" where
  "notQueryOrFragmentStart c = (c \<noteq> CHR ''?'' \<and> c \<noteq> CHR ''#'')"

definition fragmentState :: "string \<Rightarrow> string" where
  "fragmentState r = percentEncode fragmentSet r"

definition queryAndFragment ::
  "bool \<Rightarrow> string option \<Rightarrow> string \<Rightarrow> string option \<times> string option" where
  \<comment> \<open>query state and fragment state on what is left at the first \<open>?\<close> or \<open>#\<close>;
      \<open>q0\<close> is the query so far, kept when the rest starts with \<open>#\<close> or is empty\<close>
  "queryAndFragment special q0 r =
     (case r of
        [] \<Rightarrow> (q0, None)
      | c # cs \<Rightarrow>
          if c = CHR ''?'' then
            (Some (percentEncode (if special then specialQuerySet else querySet)
                     (takeWhile (\<lambda>x. x \<noteq> CHR ''#'') cs)),
             (case dropWhile (\<lambda>x. x \<noteq> CHR ''#'') cs of
                [] \<Rightarrow> None
              | h # f \<Rightarrow> Some (fragmentState f)))
          else (q0, Some (fragmentState cs)))"

definition pathState ::
  "string \<Rightarrow> string list \<Rightarrow> string option \<Rightarrow> string
     \<Rightarrow> string list \<times> string option \<times> string option" where
  \<comment> \<open>path state from \<open>r\<close> on, with the path \<open>path0\<close> and the query \<open>q0\<close> so far:
      the path, the query and the fragment of the result\<close>
  "pathState scheme path0 q0 r =
     (let special = isSpecialScheme scheme;
          segs = map (percentEncode pathSet)
                   (splitOn (\<lambda>c. c = CHR ''/'' \<or> (special \<and> c = CHR 0x5C))
                      (takeWhile notQueryOrFragmentStart r));
          (q, f) = queryAndFragment special q0 (dropWhile notQueryOrFragmentStart r)
      in (pathSegments scheme path0 segs, q, f))"

definition pathStartState ::
  "string \<Rightarrow> string \<Rightarrow> string list \<times> string option \<times> string option" where
  "pathStartState scheme r =
     (if isSpecialScheme scheme then
        pathState scheme [] None (case r of [] \<Rightarrow> [] | c # cs \<Rightarrow> if isSlash c then cs else r)
      else (case r of
              [] \<Rightarrow> ([], None, None)
            | c # cs \<Rightarrow>
                if c = CHR ''?'' \<or> c = CHR ''#'' then
                  (let (q, f) = queryAndFragment False None r in ([], q, f))
                else pathState scheme [] None (if c = CHR ''/'' then cs else r)))"

definition mkUrl ::
  "string \<Rightarrow> string option \<Rightarrow> nat option
     \<Rightarrow> string list \<times> string option \<times> string option \<Rightarrow> url" where
  "mkUrl scheme h p pqf =
     \<lparr>urlScheme = scheme, urlHost = h, urlPort = p, urlPath = Segments (fst pqf),
      urlQuery = fst (snd pqf), urlFragment = snd (snd pqf)\<rparr>"

fun splitHostPort :: "bool \<Rightarrow> string \<Rightarrow> string \<times> string option" where
  \<comment> \<open>host state: the buffer up to the first colon outside square brackets, and what
      follows that colon, if there is one\<close>
  "splitHostPort insideBrackets [] = ([], None)"
| "splitHostPort insideBrackets (c # cs) =
     (if c = CHR '':'' \<and> \<not> insideBrackets then ([], Some cs)
      else
        (let (h, p) = splitHostPort
                 (if c = CHR ''['' then True else if c = CHR '']'' then False else insideBrackets) cs
         in (c # h, p)))"

definition portState :: "string \<Rightarrow> string \<Rightarrow> nat option option" where
  \<comment> \<open>\<open>None\<close> is failure; \<open>Some None\<close> is the null port\<close>
  "portState scheme buffer =
     (if \<not> list_all isDigit buffer then None
      else if buffer = [] then Some None
      else
        let port = parseRadix 10 buffer
        in if 65535 < port then None
           else Some (if defaultPort scheme = Some port then None else Some port))"

definition hostState ::
  "(string \<Rightarrow> string option) \<Rightarrow> string \<Rightarrow> string \<Rightarrow> (string \<times> nat option) option" where
  "hostState toASCII scheme hostport =
     (let special = isSpecialScheme scheme
      in (case splitHostPort False hostport of
            (buffer, Some portString) \<Rightarrow>
              if buffer = [] then None
              else (case hostParser toASCII buffer (\<not> special) of
                      None \<Rightarrow> None
                    | Some h \<Rightarrow> map_option (\<lambda>p. (h, p)) (portState scheme portString))
          | (buffer, None) \<Rightarrow>
              if special \<and> buffer = [] then None
              else map_option (\<lambda>h. (h, None)) (hostParser toASCII buffer (\<not> special))))"

definition inAuthority :: "string \<Rightarrow> char \<Rightarrow> bool" where
  \<comment> \<open>the authority ends at a slash, a question mark or a hash, and in a special URL
      at a backslash\<close>
  "inAuthority scheme c =
     (c \<notin> set [CHR ''/'', CHR ''?'', CHR ''#''] \<and> \<not> (isSpecialScheme scheme \<and> c = CHR 0x5C))"

definition authorityState :: "(string \<Rightarrow> string option) \<Rightarrow> string \<Rightarrow> string \<Rightarrow> url option" where
  \<comment> \<open>authority state, host state, port state and path start state from \<open>r\<close> on\<close>
  "authorityState toASCII scheme r =
     (let authority = takeWhile (inAuthority scheme) r;
          rest = dropWhile (inAuthority scheme) r;
          hostport = rev (takeWhile (\<lambda>c. c \<noteq> CHR ''@'') (rev authority))
      in if CHR ''@'' \<in> set authority \<and> hostport = [] then None
         else (case hostState toASCII scheme hostport of
                 None \<Rightarrow> None
               | Some (h, p) \<Rightarrow> Some (mkUrl scheme (Some h) p (pathStartState scheme rest))))"

definition opaquePathState :: "string \<Rightarrow> string \<Rightarrow> url" where
  "opaquePathState scheme r =
     (let p = takeWhile notQueryOrFragmentStart r;
          rest = dropWhile notQueryOrFragmentStart r;
          body = percentEncode c0ControlSet p;
          path = (if p \<noteq> [] \<and> last p = CHR '' '' \<and> rest \<noteq> []
                  then percentEncode c0ControlSet (butlast p) @ ''%20'' else body);
          (q, f) = queryAndFragment False None rest
      in \<lparr>urlScheme = scheme, urlHost = None, urlPort = None, urlPath = Opaque path,
          urlQuery = q, urlFragment = f\<rparr>)"

definition baseSegments :: "url \<Rightarrow> string list" where
  "baseSegments b = (case urlPath b of Segments p \<Rightarrow> p | Opaque p \<Rightarrow> [])"

definition fileHostState :: "(string \<Rightarrow> string option) \<Rightarrow> string \<Rightarrow> url option" where
  "fileHostState toASCII r =
     (let inHost = (\<lambda>c. c \<notin> set [CHR ''/'', CHR 0x5C, CHR ''?'', CHR ''#'']);
          buffer = takeWhile inHost r;
          rest = dropWhile inHost r
      in if isWindowsDriveLetter buffer then
           Some (mkUrl ''file'' (Some []) None (pathState ''file'' [] None r))
         else if buffer = [] then
           Some (mkUrl ''file'' (Some []) None (pathStartState ''file'' rest))
         else (case hostParser toASCII buffer False of
                 None \<Rightarrow> None
               | Some h \<Rightarrow>
                   Some (mkUrl ''file'' (Some (if h = ''localhost'' then [] else h)) None
                           (pathStartState ''file'' rest))))"

definition fileState :: "(string \<Rightarrow> string option) \<Rightarrow> url option \<Rightarrow> string \<Rightarrow> url option" where
  \<comment> \<open>file state and file slash state\<close>
  "fileState toASCII base r =
     (let fileBase = (case base of None \<Rightarrow> None
                      | Some b \<Rightarrow> if urlScheme b = ''file'' then Some b else None)
      in (case r of
            c # cs \<Rightarrow>
              if isSlash c then
                (case cs of
                   d # ds \<Rightarrow>
                     if isSlash d then fileHostState toASCII ds
                     else (case fileBase of
                             None \<Rightarrow> Some (mkUrl ''file'' (Some []) None (pathState ''file'' [] None cs))
                           | Some b \<Rightarrow>
                               Some (mkUrl ''file'' (urlHost b) None
                                 (pathState ''file''
                                    (if \<not> startsWithWindowsDriveLetter cs
                                        \<and> isNormalizedWindowsDriveLetter (hd (baseSegments b))
                                        \<and> baseSegments b \<noteq> []
                                     then [hd (baseSegments b)] else []) None cs)))
                 | [] \<Rightarrow>
                     (case fileBase of
                        None \<Rightarrow> Some (mkUrl ''file'' (Some []) None (pathState ''file'' [] None []))
                      | Some b \<Rightarrow>
                          Some (mkUrl ''file'' (urlHost b) None
                            (pathState ''file''
                               (if isNormalizedWindowsDriveLetter (hd (baseSegments b))
                                   \<and> baseSegments b \<noteq> []
                                then [hd (baseSegments b)] else []) None []))))
              else
                (case fileBase of
                   None \<Rightarrow> Some (mkUrl ''file'' (Some []) None (pathState ''file'' [] None r))
                 | Some b \<Rightarrow>
                     if c = CHR ''?'' then
                       Some (mkUrl ''file'' (urlHost b) None
                               (baseSegments b, queryAndFragment True None r))
                     else if c = CHR ''#'' then
                       Some (mkUrl ''file'' (urlHost b) None
                               (baseSegments b, queryAndFragment True (urlQuery b) r))
                     else
                       Some (mkUrl ''file'' (urlHost b) None
                               (pathState ''file''
                                  (if \<not> startsWithWindowsDriveLetter r
                                   then shorten ''file'' (baseSegments b) else []) None r)))
          | [] \<Rightarrow>
              (case fileBase of
                 None \<Rightarrow> Some (mkUrl ''file'' (Some []) None (pathState ''file'' [] None []))
               | Some b \<Rightarrow>
                   Some (mkUrl ''file'' (urlHost b) None (baseSegments b, urlQuery b, None)))))"

definition relativeState :: "(string \<Rightarrow> string option) \<Rightarrow> url \<Rightarrow> string \<Rightarrow> url option" where
  \<comment> \<open>relative state and relative slash state against the base \<open>b\<close>\<close>
  "relativeState toASCII b r =
     (let scheme = urlScheme b; special = isSpecialScheme scheme
      in (case r of
            [] \<Rightarrow> Some (b\<lparr>urlFragment := None\<rparr>)
          | c # cs \<Rightarrow>
              if c = CHR ''/'' \<or> (special \<and> c = CHR 0x5C) then
                (case cs of
                   [] \<Rightarrow> Some (mkUrl scheme (urlHost b) (urlPort b) (pathState scheme [] None cs))
                 | d # ds \<Rightarrow>
                     if special \<and> isSlash d then authorityState toASCII scheme (dropWhile isSlash ds)
                     else if d = CHR ''/'' then authorityState toASCII scheme ds
                     else Some (mkUrl scheme (urlHost b) (urlPort b) (pathState scheme [] None cs)))
              else if c = CHR ''?'' then
                Some (mkUrl scheme (urlHost b) (urlPort b)
                        (baseSegments b, queryAndFragment special None r))
              else if c = CHR ''#'' then
                Some (mkUrl scheme (urlHost b) (urlPort b)
                        (baseSegments b, queryAndFragment special (urlQuery b) r))
              else
                Some (mkUrl scheme (urlHost b) (urlPort b)
                        (pathState scheme (shorten scheme (baseSegments b)) None r))))"

definition noSchemeState :: "(string \<Rightarrow> string option) \<Rightarrow> url option \<Rightarrow> string \<Rightarrow> url option" where
  "noSchemeState toASCII base s =
     (case base of
        None \<Rightarrow> None
      | Some b \<Rightarrow>
          (case urlPath b of
             Opaque p \<Rightarrow>
               (case s of
                  [] \<Rightarrow> None
                | c # cs \<Rightarrow>
                    if c = CHR ''#'' then
                      Some \<lparr>urlScheme = urlScheme b, urlHost = None, urlPort = None,
                            urlPath = Opaque p, urlQuery = urlQuery b,
                            urlFragment = Some (fragmentState cs)\<rparr>
                    else None)
           | Segments p \<Rightarrow>
               if urlScheme b \<noteq> ''file'' then relativeState toASCII b s
               else fileState toASCII base s))"

definition basicURLParser :: "(string \<Rightarrow> string option) \<Rightarrow> string \<Rightarrow> url option \<Rightarrow> url option" where
  "basicURLParser toASCII input base =
     (let s = cleanInput input
      in (case schemeOf s of
            None \<Rightarrow> noSchemeState toASCII base s
          | Some (scheme, r) \<Rightarrow>
              if scheme = ''file'' then fileState toASCII base r
              else if isSpecialScheme scheme then
                (case (case base of None \<Rightarrow> None
                       | Some b \<Rightarrow> if urlScheme b = scheme then Some b else None) of
                   Some b \<Rightarrow>
                     if take 2 r = ''//'' then authorityState toASCII scheme (dropWhile isSlash r)
                     else relativeState toASCII b r
                 | None \<Rightarrow> authorityState toASCII scheme (dropWhile isSlash r))
              else
                (case r of
                   [] \<Rightarrow> Some (opaquePathState scheme r)
                 | c # cs \<Rightarrow>
                     if c \<noteq> CHR ''/'' then Some (opaquePathState scheme r)
                     else (case cs of
                             [] \<Rightarrow> Some (mkUrl scheme None None (pathState scheme [] None cs))
                           | d # ds \<Rightarrow>
                               if d = CHR ''/'' then authorityState toASCII scheme ds
                               else Some (mkUrl scheme None None (pathState scheme [] None cs))))))"

definition URL :: "(string \<Rightarrow> string option) \<Rightarrow> string \<Rightarrow> string option \<Rightarrow> url option" where
  \<comment> \<open>\<open>new URL(input, base)\<close>; \<open>None\<close> is the TypeError it throws\<close>
  "URL toASCII input base =
     (case base of
        None \<Rightarrow> basicURLParser toASCII input None
      | Some b \<Rightarrow>
          (case basicURLParser toASCII b None of
             None \<Rightarrow> None
           | Some parsedBase \<Rightarrow> basicURLParser toASCII input (Some parsedBase)))"

definition host :: "url \<Rightarrow> string" where
  "host u =
     (case urlHost u of
        None \<Rightarrow> []
      | Some h \<Rightarrow> (case urlPort u of None \<Rightarrow> h | Some p \<Rightarrow> h @ '':'' @ showNat p))"

definition pathname :: "url \<Rightarrow> string" where
  "pathname u =
     (case urlPath u of
        Opaque p \<Rightarrow> p
      | Segments segs \<Rightarrow> concat (map (\<lambda>seg. ''/'' @ seg) segs))"

definition search :: "url \<Rightarrow> string" where
  "search u = (case urlQuery u of None \<Rightarrow> [] | Some q \<Rightarrow> if q = [] then [] else ''?'' @ q)"

definition hash :: "url \<Rightarrow> string" where
  "hash u = (case urlFragment u of None \<Rightarrow> [] | Some f \<Rightarrow> if f = [] then [] else ''#'' @ f)"


section \<open>The redirect resolver\<close>

definition hasSchemeMarker :: "string \<Rightarrow> bool" where
  \<comment> \<open>Modelled from the spec: the scheme marker that \<open>isInternalUrl\<close> looks for, a
      colon before the first slash.\<close>
  "hasSchemeMarker s = (CHR '':'' \<in> set (takeWhile (\<lambda>c. c \<noteq> CHR ''/'') s))"

definition isInternalUrl :: "string \<Rightarrow> bool" where
  \<comment> \<open>Modelled from the spec: \<open>isInternalUrl\<close> of \<open>~/lib/url\<close> (the spec's isInternalPath),
      which the resolver imports and which is not among the sources; only its tests are.
      True iff the candidate begins with exactly one slash, is not followed by a second
      slash, and has no colon before the first slash; \<open>/\<close> itself is internal. On the
      empty string the spec's sentences disagree ("treating the empty string as internal"
      against "false for any string not starting with /" and "for all strings s not
      starting with /, isInternalPath(s) = false"); the model follows the two sentences
      that make it false.\<close>
  "isInternalUrl s =
     (case s of
        [] \<Rightarrow> False
      | c # cs \<Rightarrow>
          c = CHR ''/'' \<and> (case cs of [] \<Rightarrow> True | d # ds \<Rightarrow> d \<noteq> CHR ''/'')
            \<and> \<not> hasSchemeMarker s)"

definition normalizedPath :: "url \<Rightarrow> string" where
  "normalizedPath parsed = pathname parsed @ search parsed @ hash parsed"

definition resolveRedirectPath ::
  "(string \<Rightarrow> string option) \<Rightarrow> string option \<Rightarrow> string list \<Rightarrow> string" where
  \<comment> \<open>\<open>!nextParam\<close> holds of null and of the empty string; the \<open>TypeError\<close> of
      \<open>new URL\<close> is caught and falls through to the fallback\<close>
  "resolveRedirectPath toASCII nextParam allowedHosts =
     (let fallback = ''/''
      in (case nextParam of
            None \<Rightarrow> fallback
          | Some np \<Rightarrow>
              if np = [] then fallback
              else if isInternalUrl np then np
              else (case URL toASCII np (Some ''http://localhost'') of
                      None \<Rightarrow> fallback
                    | Some parsed \<Rightarrow>
                        if host parsed \<in> set allowedHosts then
                          (if isInternalUrl (normalizedPath parsed) then normalizedPath parsed
                           else fallback)
                        else fallback)))"

section \<open>The auth callback handler\<close>

text \<open>
  The handler \<open>GET\<close>. The request is its query parameters, in order, and its headers
  (the cookies are among them). The canonical site URL is what \<open>getSiteUrl()\<close> of
  \<open>~/lib/url\<close> returns, which is not among the sources: it is the field \<open>siteUrl\<close> of the
  server's configuration, next to the two environment variables the handler reads. The
  auth service is outside the repository: whether \<open>exchangeCodeForSession\<close> and
  \<open>verifyOtp\<close> report an error is given by two functions of the whole request, so that
  the answer may depend on the headers. The response is the URL given to
  \<open>NextResponse.redirect\<close>; the cookies put on it, the call of \<open>getUser\<close> and the
  logging of a failure do not change that URL.
\<close>

record request =
  searchParams :: "(string \<times> string) list"
  headers :: "(string \<times> string) list"

record config =
  siteUrl :: string
  supabaseUrl :: "string option"
  supabaseKey :: "string option"

record authService =
  exchangeCodeForSessionError :: "request \<Rightarrow> string \<Rightarrow> bool"
  verifyOtpError :: "request \<Rightarrow> string \<Rightarrow> bool"

datatype getError = InvalidSiteUrl | MissingSupabaseEnv

datatype response = Redirect string

definition getSiteUrl :: "config \<Rightarrow> string" where
  \<comment> \<open>Modelled from the spec: \<open>getSiteUrl\<close> of \<open>~/lib/url\<close>, which the handler imports and
      which is not among the sources. The spec has the canonical origin come from
      trusted static server configuration, never from a client-supplied header: it is a
      function of the configuration alone and does not see the request.\<close>
  "getSiteUrl cfg = siteUrl cfg"

definition getParam :: "request \<Rightarrow> string \<Rightarrow> string option" where
  \<comment> \<open>\<open>searchParams.get(name)\<close>: the first value of that name, or null\<close>
  "getParam r name = map_of (searchParams r) name"

definition truthy :: "string option \<Rightarrow> bool" where
  "truthy v = (case v of None \<Rightarrow> False | Some s \<Rightarrow> s \<noteq> [])"

definition isValidEmailOtpType :: "string option \<Rightarrow> bool" where
  "isValidEmailOtpType v =
     (case v of
        None \<Rightarrow> False
      | Some s \<Rightarrow>
          if s = [] then False
          else s = ''signup'' \<or> s = ''invite'' \<or> s = ''magiclink'' \<or> s = ''recovery''
                 \<or> s = ''email_change'' \<or> s = ''email'')"

definition uriUnreserved :: "char \<Rightarrow> bool" where
  "uriUnreserved c =
     (isAlnum c \<or> c \<in> set [CHR ''-'', CHR ''_'', CHR ''.'', CHR ''!'', CHR ''~'', CHR ''*'',
                              CHR 0x27, CHR ''('', CHR '')''])"

definition encodeURIComponent :: "string \<Rightarrow> string" where
  "encodeURIComponent s = percentEncode (\<lambda>c. \<not> uriUnreserved c) s"

definition nextParamOf :: "request \<Rightarrow> string" where
  \<comment> \<open>\<open>searchParams.get("next") ?? "/"\<close>\<close>
  "nextParamOf req = (case getParam req ''next'' of None \<Rightarrow> ''/'' | Some v \<Rightarrow> v)"

definition redirectPathFor :: "string \<Rightarrow> string" where
  "redirectPathFor next =
     (let shouldUseLoadingScreen = (next = ''/reset-password'')
      in if shouldUseLoadingScreen then ''/auth/loading?next='' @ encodeURIComponent next
         else next)"

definition GET ::
  "(string \<Rightarrow> string option) \<Rightarrow> config \<Rightarrow> authService \<Rightarrow> request \<Rightarrow> getError + response" where
  "GET toASCII cfg auth req =
     (let code = getParam req ''code'';
          tokenHash = getParam req ''token_hash'';
          typeParam = getParam req ''type'';
          nextParam = nextParamOf req
      in (case URL toASCII (getSiteUrl cfg) None of
            None \<Rightarrow> Inl InvalidSiteUrl
          | Some site \<Rightarrow>
              let siteUrl = getSiteUrl cfg;
                  siteHost = host site;
                  allowedHosts = [siteHost];
                  next = resolveRedirectPath toASCII (Some nextParam) allowedHosts;
                  redirectPath = redirectPathFor next;
                  redirectToTarget = Redirect (siteUrl @ redirectPath)
              in if \<not> truthy (supabaseUrl cfg) \<or> \<not> truthy (supabaseKey cfg)
                 then Inl MissingSupabaseEnv
                 else if truthy code \<and> \<not> exchangeCodeForSessionError auth req (the code)
                 then Inr redirectToTarget
                 else if truthy tokenHash \<and> isValidEmailOtpType typeParam
                         \<and> \<not> verifyOtpError auth req (the tokenHash)
                 then Inr redirectToTarget
                 else Inr (Redirect (siteUrl @ ''/auth/auth-code-error''))))"

definition authSucceeds :: "authService \<Rightarrow> request \<Rightarrow> bool" where
  \<comment> \<open>a code exchange or an OTP verification that reports no error; the statement of
      the handler's behaviour uses it, the handler itself does not\<close>
  "authSucceeds auth req =
     ((truthy (getParam req ''code'')
         \<and> \<not> exchangeCodeForSessionError auth req (the (getParam req ''code'')))
      \<or> (truthy (getParam req ''token_hash'') \<and> isValidEmailOtpType (getParam req ''type'')
           \<and> \<not> verifyOtpError auth req (the (getParam req ''token_hash''))))"

definition originOf :: "url \<Rightarrow> string \<times> string option \<times> nat option" where
  \<comment> \<open>the origin of a URL: its scheme, host and port\<close>
  "originOf u = (urlScheme u, urlHost u, urlPort u)"

definition isOriginAuthority :: "string \<Rightarrow> string \<Rightarrow> bool" where
  \<comment> \<open>\<open>scheme://authority\<close> is an http or https origin written without a path: the
      authority has no slash, backslash, question mark, hash, C0 control or space\<close>
  "isOriginAuthority scheme authority =
     ((scheme = ''http'' \<or> scheme = ''https'')
      \<and> list_all (\<lambda>c. inAuthority scheme c \<and> \<not> isC0ControlOrSpace c) authority)"

section \<open>Plain host names\<close>

definition isPlainHostChar :: "char \<Rightarrow> bool" where
  "isPlainHostChar c = (isLowerAlpha c \<or> isDigit c \<or> c = CHR ''-'' \<or> c = CHR ''.'')"

definition isPlainHost :: "string \<Rightarrow> bool" where
  \<comment> \<open>a non-empty host name of lowercase letters, digits, hyphens and dots, none of
      whose labels starts with xn--, and which does not end in a number (it is not an
      IPv4 address)\<close>
  "isPlainHost h =
     (h \<noteq> [] \<and> list_all isPlainHostChar h \<and> plainAsciiDomain h \<and> \<not> endsInANumber h)"

section \<open>Concrete inputs\<close>

definition noUnicode :: "string \<Rightarrow> string option" where
  \<comment> \<open>a Unicode ToASCII that rejects every domain it is asked about; the concrete
      inputs below have plain ASCII domains, for which it is not consulted\<close>
  "noUnicode d = None"

definition localhostBase :: url where
  \<comment> \<open>the parsed form of the base \<open>http://localhost\<close>\<close>
  "localhostBase =
     \<lparr>urlScheme = ''http'', urlHost = Some ''localhost'', urlPort = None,
      urlPath = Segments [[]], urlQuery = None, urlFragment = None\<rparr>"

definition backslashCandidate :: string where
  \<comment> \<open>two backslashes followed by \<open>app.example.com/x\<close>\<close>
  "backslashCandidate = CHR 0x5C # CHR 0x5C # ''app.example.com/x''"

definition exampleConfig :: config where
  "exampleConfig =
     \<lparr>siteUrl = ''https://app.example.com'', supabaseUrl = Some ''https://project.supabase.co'',
      supabaseKey = Some ''publishable-key''\<rparr>"

definition cookieAuth :: authService where
  \<comment> \<open>an auth service whose answer depends on a header: it reports an error exactly
      when the request carries no cookie\<close>
  "cookieAuth =
     \<lparr>exchangeCodeForSessionError = (\<lambda>req code. map_of (headers req) ''cookie'' = None),
      verifyOtpError = (\<lambda>req tokenHash. map_of (headers req) ''cookie'' = None)\<rparr>"

definition requestWithCookie :: request where
  "requestWithCookie =
     \<lparr>searchParams = [(''code'', ''abc''), (''next'', ''/dashboard'')],
      headers = [(''host'', ''evil.com''), (''cookie'', ''verifier'')]\<rparr>"

definition requestWithoutCookie :: request where
  "requestWithoutCookie =
     \<lparr>searchParams = [(''code'', ''abc''), (''next'', ''/dashboard'')],
      headers = [(''x-forwarded-host'', ''evil.com'')]\<rparr>"

definition resetPasswordRequest :: request where
  "resetPasswordRequest =
     \<lparr>searchParams = [(''code'', ''abc''), (''next'', ''/reset-password'')],
      headers = [(''cookie'', ''verifier'')]\<rparr>"


definition recoveryRequest :: request where
  "recoveryRequest =
     \<lparr>searchParams = [(''token_hash'', ''t0k''), (''type'', ''recovery''), (''next'', ''/dashboard'')],
      headers = [(''cookie'', ''verifier'')]\<rparr>"

definition recoveryRequestWithoutCookie :: request where
  "recoveryRequestWithoutCookie =
     \<lparr>searchParams = [(''token_hash'', ''t0k''), (''type'', ''recovery''), (''next'', ''/dashboard'')],
      headers = []\<rparr>"

definition unknownTypeRequest :: request where
  "unknownTypeRequest =
     \<lparr>searchParams = [(''token_hash'', ''t0k''), (''type'', ''bogus''), (''next'', ''/dashboard'')],
      headers = [(''cookie'', ''verifier'')]\<rparr>"

definition pathOnlyConfig :: config where
  \<comment> \<open>a site URL that is not an origin: a scheme and a path, without authority\<close>
  "pathOnlyConfig =
     \<lparr>siteUrl = ''foo:/'', supabaseUrl = Some ''https://project.supabase.co'',
      supabaseKey = Some ''publishable-key''\<rparr>"

definition hostLikeNextWithCookie :: request where
  "hostLikeNextWithCookie =
     \<lparr>searchParams = [(''code'', ''abc''), (''next'', ''/evil.com/x'')],
      headers = [(''cookie'', ''verifier'')]\<rparr>"

definition hostLikeNextWithoutCookie :: request where
  "hostLikeNextWithoutCookie =
     \<lparr>searchParams = [(''code'', ''abc''), (''next'', ''/evil.com/x'')], headers = []\<rparr>"

section \<open>Facts about the parser and the resolver\<close>

lemma parse_localhost_base: "basicURLParser t ''http://localhost'' None = Some localhostBase"
  unfolding localhostBase_def by code_simp

lemma URL_localhost:
  "URL t c (Some ''http://localhost'') = basicURLParser t c (Some localhostBase)"
  by (simp add: URL_def parse_localhost_base)

lemma URL_empty: "URL t [] (Some ''http://localhost'') = Some localhostBase"
  unfolding localhostBase_def by code_simp

lemma normalizedPath_base: "normalizedPath localhostBase = ''/''"
  unfolding localhostBase_def by code_simp

lemma isInternalUrl_root: "isInternalUrl ''/''"
  by (simp add: isInternalUrl_def hasSchemeMarker_def)

lemma isInternalUrl_shape:
  "isInternalUrl s \<Longrightarrow>
     s \<noteq> [] \<and> take 1 s = ''/'' \<and> take 2 s \<noteq> ''//'' \<and> \<not> hasSchemeMarker s"
  by (auto simp: isInternalUrl_def split: list.splits)

lemma resolve_internal: "isInternalUrl (resolveRedirectPath t np H)"
  by (auto simp: resolveRedirectPath_def Let_def isInternalUrl_root split: option.splits)

lemma resolve_of_internal: "isInternalUrl c \<Longrightarrow> resolveRedirectPath t (Some c) H = c"
  by (auto simp: resolveRedirectPath_def Let_def dest: isInternalUrl_shape)

lemma resolve_parsed:
  "c \<noteq> [] \<Longrightarrow> \<not> isInternalUrl c \<Longrightarrow> URL t c (Some ''http://localhost'') = Some u \<Longrightarrow>
   resolveRedirectPath t (Some c) H =
     (if host u \<in> set H \<and> isInternalUrl (normalizedPath u) then normalizedPath u else ''/'')"
  by (simp add: resolveRedirectPath_def Let_def)

lemma resolve_parsed_any:
  assumes "\<not> isInternalUrl c" and "URL t c (Some ''http://localhost'') = Some u"
  shows "resolveRedirectPath t (Some c) H =
     (if host u \<in> set H \<and> isInternalUrl (normalizedPath u) then normalizedPath u else ''/'')"
proof (cases "c = []")
  case True
  with assms have "u = localhostBase" by (simp add: URL_empty)
  with True show ?thesis
    by (simp add: resolveRedirectPath_def normalizedPath_base isInternalUrl_root)
next
  case False
  with assms show ?thesis by (simp add: resolve_parsed)
qed


lemma rev_dropWhile_snoc: "\<not> P x \<Longrightarrow> \<exists>m. rev (dropWhile P (ys @ [x])) = x # m"
proof (cases "\<forall>y\<in>set ys. P y")
  case True
  assume "\<not> P x"
  with True show ?thesis by (simp add: dropWhile_append2)
next
  case False
  then obtain y where "y \<in> set ys" "\<not> P y" by blast
  then show ?thesis by (simp add: dropWhile_append1)
qed

lemma clean_keeps_slash: "\<exists>r. cleanInput (CHR ''/'' # cs) = CHR ''/'' # r"
proof -
  have np: "\<not> isC0ControlOrSpace CHR ''/''"
    by (simp add: isC0ControlOrSpace_def codePoint_def)
  from rev_dropWhile_snoc [of isC0ControlOrSpace "CHR ''/''" "rev cs", OF np]
  obtain m where "rev (dropWhile isC0ControlOrSpace (rev cs @ [CHR ''/''])) = CHR ''/'' # m"
    by blast
  then show ?thesis using np
    by (simp add: cleanInput_def isTabOrNewline_def)
qed

lemma not_internal_of_clean:
  assumes "case cleanInput c of [] \<Rightarrow> True | d # ds \<Rightarrow> \<not> isSlash d"
  shows "\<not> isInternalUrl c"
proof
  assume "isInternalUrl c"
  then obtain cs where "c = CHR ''/'' # cs"
    by (auto simp: isInternalUrl_def split: list.splits)
  with clean_keeps_slash [of cs] obtain r where "cleanInput c = CHR ''/'' # r" by auto
  with assms show False by (simp add: isSlash_def)
qed

lemma internal_not_absolute:
  assumes "isInternalUrl c"
  shows "URL t c None = None"
proof -
  from assms obtain cs where "c = CHR ''/'' # cs"
    by (auto simp: isInternalUrl_def split: list.splits)
  with clean_keeps_slash [of cs] obtain r where "cleanInput c = CHR ''/'' # r" by auto
  then show ?thesis
    by (simp add: URL_def basicURLParser_def schemeOf_def noSchemeState_def isAlpha_def
        isUpperAlpha_def isLowerAlpha_def codePoint_def)
qed

lemma relative_host:
  assumes "schemeOf (cleanInput c) = None"
    and "case cleanInput c of [] \<Rightarrow> True | d # ds \<Rightarrow> \<not> isSlash d"
  shows "\<exists>u. URL t c (Some ''http://localhost'') = Some u \<and> host u = ''localhost''"
proof (cases "cleanInput c")
  case Nil
  with assms show ?thesis
    by (simp add: URL_localhost basicURLParser_def noSchemeState_def relativeState_def
        localhostBase_def host_def Let_def)
next
  case (Cons d ds)
  with assms have "\<not> isSlash d" by simp
  then have "d \<noteq> CHR ''/''" "d \<noteq> CHR 0x5C" by (auto simp: isSlash_def)
  with Cons assms(1) show ?thesis
    by (simp add: URL_localhost basicURLParser_def noSchemeState_def relativeState_def
        localhostBase_def host_def mkUrl_def Let_def)
qed

lemma GET_targets:
  assumes "GET t cfg auth req = Inr (Redirect target)"
  shows "\<exists>site. URL t (getSiteUrl cfg) None = Some site
           \<and> target = getSiteUrl cfg
                 @ (if authSucceeds auth req
                    then redirectPathFor
                           (resolveRedirectPath t (Some (nextParamOf req)) [host site])
                    else ''/auth/auth-code-error'')"
  using assms
  by (auto simp: GET_def Let_def authSucceeds_def split: option.splits if_splits)

lemma nextParamOf_cong:
  "searchParams req' = searchParams req \<Longrightarrow> nextParamOf req' = nextParamOf req"
  by (simp add: nextParamOf_def getParam_def)

lemma redirectPathFor_slash:
  "isInternalUrl next \<Longrightarrow> take 1 (redirectPathFor next) = ''/''"
  by (auto simp: redirectPathFor_def Let_def dest: isInternalUrl_shape)

lemma plain_char_facts:
  assumes "isPlainHostChar c"
  shows "\<not> isSlash c" "c \<noteq> CHR ''?''" "c \<noteq> CHR ''#''" "c \<noteq> CHR ''@''" "c \<noteq> CHR '':''"
    "c \<noteq> CHR ''%''" "c \<noteq> CHR ''[''" "c \<noteq> CHR '']''" "\<not> isUpperAlpha c" "\<not> isC0ControlOrSpace c"
    "\<not> isTabOrNewline c" "\<not> forbiddenDomainCodePoint c"
  using assms
  by (auto simp: isPlainHostChar_def isLowerAlpha_def isDigit_def isUpperAlpha_def isSlash_def
      isC0ControlOrSpace_def isTabOrNewline_def forbiddenDomainCodePoint_def
      forbiddenHostCodePoint_def codePoint_def)


lemma tab_is_c0: "isTabOrNewline c \<Longrightarrow> isC0ControlOrSpace c"
  by (auto simp: isTabOrNewline_def isC0ControlOrSpace_def codePoint_def)

lemma clean_prefix:
  assumes "list_all (\<lambda>c. \<not> isC0ControlOrSpace c) xs" and "\<not> isC0ControlOrSpace y"
  shows "\<exists>m. cleanInput (xs @ y # ys) = xs @ y # m"
proof -
  let ?P = isC0ControlOrSpace
  have front: "dropWhile ?P (xs @ y # ys) = xs @ y # ys"
    using assms by (cases xs) simp_all
  have "\<exists>k. dropWhile ?P (rev ys @ y # rev xs) = k @ y # rev xs"
  proof (cases "\<forall>z\<in>set (rev ys). ?P z")
    case True
    then have "dropWhile ?P (rev ys @ y # rev xs) = dropWhile ?P (y # rev xs)"
      by (intro dropWhile_append2) simp
    with assms(2) show ?thesis by simp
  next
    case False
    then obtain z where "z \<in> set (rev ys)" "\<not> ?P z" by blast
    then have "dropWhile ?P (rev ys @ y # rev xs) = dropWhile ?P (rev ys) @ y # rev xs"
      by (rule dropWhile_append1)
    then show ?thesis by blast
  qed
  then obtain k where k: "dropWhile ?P (rev ys @ y # rev xs) = k @ y # rev xs" by blast
  have keep: "filter (\<lambda>c. \<not> isTabOrNewline c) xs = xs"
    using assms(1) by (auto simp: filter_id_conv list_all_iff dest: tab_is_c0)
  have "\<not> isTabOrNewline y" using assms(2) tab_is_c0 by blast
  with front k keep show ?thesis by (simp add: cleanInput_def)
qed

lemma splitHostPort_plain: "list_all isPlainHostChar h \<Longrightarrow> splitHostPort b h = (h, None)"
  by (induction h arbitrary: b) (auto dest: plain_char_facts)

lemma percentDecode_plain: "CHR ''%'' \<notin> set s \<Longrightarrow> percentDecode s = s"
  by (induction s rule: percentDecode.induct) auto

lemma lowercase_plain: "list_all isPlainHostChar h \<Longrightarrow> asciiLowercase h = h"
  by (induction h) (auto simp: asciiLowercase_def toLower_def dest: plain_char_facts)

lemma hostParser_plain:
  assumes "isPlainHost h"
  shows "hostParser t h False = Some h"
proof -
  from assms have ne: "h \<noteq> []" and pl: "list_all isPlainHostChar h"
    and ad: "plainAsciiDomain h" and nn: "\<not> endsInANumber h"
    by (simp_all add: isPlainHost_def)
  from pl have "CHR ''%'' \<notin> set h" by (auto simp: list_all_iff dest: plain_char_facts)
  then have pd: "percentDecode h = h" by (rule percentDecode_plain)
  from pl have nf: "\<not> list_ex forbiddenDomainCodePoint h"
    by (auto simp: list_all_iff list_ex_iff dest: plain_char_facts)
  from ne pl have hb: "hd h \<noteq> CHR ''[''" by (cases h) (auto dest: plain_char_facts)
  have "domainToASCII t h = Some h"
    using ad ne nf by (simp add: domainToASCII_def lowercase_plain [OF pl])
  with pd nn hb ne show ?thesis by (simp add: hostParser_def)
qed

lemma hostState_plain: "isPlainHost h \<Longrightarrow> hostState t ''http'' h = Some (h, None)"
proof -
  assume a: "isPlainHost h"
  then have "list_all isPlainHostChar h" "h \<noteq> []" by (simp_all add: isPlainHost_def)
  then show ?thesis
    by (simp add: hostState_def Let_def hostParser_plain [OF a] splitHostPort_plain
        isSpecialScheme_def)
qed

lemma plain_in_authority:
  assumes "list_all isPlainHostChar h" and "x \<in> set h"
  shows "inAuthority ''http'' x"
proof -
  from assms have "isPlainHostChar x" by (simp add: list_all_iff)
  from plain_char_facts(1-3) [OF this] show ?thesis
    by (simp add: inAuthority_def isSlash_def)
qed

lemma after_last_at:
  assumes "CHR ''@'' \<notin> set h"
  shows "rev (takeWhile (\<lambda>c. c \<noteq> CHR ''@'') (rev h)) = h"
proof -
  from assms have "\<forall>x\<in>set (rev h). x \<noteq> CHR ''@''" by auto
  then have "takeWhile (\<lambda>c. c \<noteq> CHR ''@'') (rev h) = rev h"
    by (simp only: takeWhile_eq_all_conv)
  then have "rev (takeWhile (\<lambda>c. c \<noteq> CHR ''@'') (rev h)) = rev (rev h)"
    by (rule arg_cong)
  then show ?thesis by (simp only: rev_rev_ident)
qed

lemma plain_no_at:
  assumes "list_all isPlainHostChar h"
  shows "CHR ''@'' \<notin> set h"
proof
  assume "CHR ''@'' \<in> set h"
  with assms have "isPlainHostChar CHR ''@''" by (simp add: list_all_iff)
  from plain_char_facts(4) [OF this] show False by simp
qed

lemma authority_plain:
  assumes "isPlainHost h"
  shows "authorityState t ''http'' (h @ CHR ''/'' # m)
           = Some (mkUrl ''http'' (Some h) None (pathStartState ''http'' (CHR ''/'' # m)))"
proof -
  from assms have pl: "list_all isPlainHostChar h" by (simp add: isPlainHost_def)
  have stop: "\<not> inAuthority ''http'' CHR ''/''" by (simp add: inAuthority_def)
  have tw: "takeWhile (inAuthority ''http'') (h @ CHR ''/'' # m) = h"
    using plain_in_authority [OF pl] stop by (simp add: takeWhile_append2)
  have dw: "dropWhile (inAuthority ''http'') (h @ CHR ''/'' # m) = CHR ''/'' # m"
    using plain_in_authority [OF pl] stop by (simp add: dropWhile_append2)
  note noat = plain_no_at [OF pl]
  note hp = after_last_at [OF noat]
  show ?thesis
    unfolding authorityState_def Let_def tw dw hp hostState_plain [OF assms]
    using noat by simp
qed

lemma plain_not_c0:
  assumes "list_all isPlainHostChar h"
  shows "list_all (\<lambda>c. \<not> isC0ControlOrSpace c) h"
proof -
  have "\<And>x. x \<in> set h \<Longrightarrow> \<not> isC0ControlOrSpace x"
  proof -
    fix x assume "x \<in> set h"
    with assms have "isPlainHostChar x" by (simp add: list_all_iff)
    from plain_char_facts(10) [OF this] show "\<not> isC0ControlOrSpace x" .
  qed
  then show ?thesis by (simp add: list_all_iff)
qed

lemma plain_hd_not_slash:
  assumes "list_all isPlainHostChar h" and "h \<noteq> []"
  shows "dropWhile isSlash (h @ r) = h @ r"
proof (cases h)
  case Nil
  with assms show ?thesis by simp
next
  case (Cons a as)
  with assms have "isPlainHostChar a" by simp
  from plain_char_facts(1) [OF this] Cons show ?thesis by simp
qed

lemma relative_double_slash:
  "basicURLParser t c (Some localhostBase) = authorityState t ''http'' (dropWhile isSlash ds)"
  if "cleanInput c = CHR ''/'' # CHR ''/'' # ds"
  unfolding basicURLParser_def that
  by (simp add: schemeOf_def isAlpha_def isUpperAlpha_def isLowerAlpha_def codePoint_def
      noSchemeState_def relativeState_def localhostBase_def Let_def isSpecialScheme_def
      isSlash_def)

lemma protocol_relative_parse:
  assumes "isPlainHost h"
  shows "\<exists>u. URL t (''//'' @ h @ ''/'' @ p) (Some ''http://localhost'') = Some u \<and> host u = h"
proof -
  from assms have ne: "h \<noteq> []" and pl: "list_all isPlainHostChar h"
    by (simp_all add: isPlainHost_def)
  have "list_all (\<lambda>c. \<not> isC0ControlOrSpace c) (''//'' @ h)"
    using plain_not_c0 [OF pl] by (simp add: isC0ControlOrSpace_def codePoint_def)
  moreover have "\<not> isC0ControlOrSpace CHR ''/''"
    by (simp add: isC0ControlOrSpace_def codePoint_def)
  ultimately obtain m
    where "cleanInput ((''//'' @ h) @ CHR ''/'' # p) = (''//'' @ h) @ CHR ''/'' # m"
    using clean_prefix by blast
  then have cl: "cleanInput (''//'' @ h @ ''/'' @ p) = CHR ''/'' # CHR ''/'' # (h @ CHR ''/'' # m)"
    by simp
  have "URL t (''//'' @ h @ ''/'' @ p) (Some ''http://localhost'')
          = authorityState t ''http'' (h @ CHR ''/'' # m)"
    unfolding URL_localhost relative_double_slash [OF cl] plain_hd_not_slash [OF pl ne] ..
  then show ?thesis
    by (simp add: authority_plain [OF assms] host_def mkUrl_def)
qed

lemma clean_id:
  assumes "list_all (\<lambda>c. \<not> isC0ControlOrSpace c) s"
  shows "cleanInput s = s"
proof -
  let ?P = isC0ControlOrSpace
  from assms have all: "\<And>x. x \<in> set s \<Longrightarrow> \<not> ?P x" by (simp add: list_all_iff)
  have front: "dropWhile ?P s = s" using all by (cases s) simp_all
  have "\<And>x. x \<in> set (rev s) \<Longrightarrow> \<not> ?P x" using all by simp
  then have rear: "dropWhile ?P (rev s) = rev s" by (cases "rev s") simp_all
  have keep: "filter (\<lambda>c. \<not> isTabOrNewline c) s = s"
    using all by (auto simp: filter_id_conv dest: tab_is_c0)
  show ?thesis by (simp add: cleanInput_def front rear keep)
qed

lemma schemeOf_http:
  assumes "scheme = ''http'' \<or> scheme = ''https''"
  shows "schemeOf (scheme @ ''://'' @ r) = Some (scheme, ''//'' @ r)"
  using assms
  by (auto simp: schemeOf_def isSchemeChar_def isAlnum_def isAlpha_def isUpperAlpha_def
      isLowerAlpha_def isDigit_def codePoint_def asciiLowercase_def toLower_def)

lemma parse_special_authority:
  assumes "scheme = ''http'' \<or> scheme = ''https''"
    and "cleanInput s = scheme @ ''://'' @ r"
  shows "basicURLParser t s None = authorityState t scheme (dropWhile isSlash r)"
proof -
  have sp: "isSpecialScheme scheme" "scheme \<noteq> ''file''"
    using assms(1) by (auto simp: isSpecialScheme_def)
  show ?thesis
    unfolding basicURLParser_def Let_def assms(2) schemeOf_http [OF assms(1)]
    using sp by (simp add: isSlash_def)
qed

lemma authority_split:
  assumes "list_all (inAuthority scheme) a"
    and "rest = [] \<or> \<not> inAuthority scheme (hd rest)"
  shows "authorityState t scheme (a @ rest) =
     (if CHR ''@'' \<in> set a \<and> rev (takeWhile (\<lambda>c. c \<noteq> CHR ''@'') (rev a)) = [] then None
      else (case hostState t scheme (rev (takeWhile (\<lambda>c. c \<noteq> CHR ''@'') (rev a))) of
              None \<Rightarrow> None
            | Some (h, p) \<Rightarrow> Some (mkUrl scheme (Some h) p (pathStartState scheme rest))))"
proof -
  from assms(1) have inA: "\<And>x. x \<in> set a \<Longrightarrow> inAuthority scheme x"
    by (simp add: list_all_iff)
  have tw: "takeWhile (inAuthority scheme) (a @ rest) = a"
  proof (cases rest)
    case Nil
    then show ?thesis using inA by (simp add: takeWhile_eq_all_conv)
  next
    case (Cons y ys)
    with assms(2) have "\<not> inAuthority scheme y" by simp
    with Cons inA show ?thesis by (simp add: takeWhile_append2)
  qed
  have dw: "dropWhile (inAuthority scheme) (a @ rest) = rest"
  proof (cases rest)
    case Nil
    then show ?thesis using inA by simp
  next
    case (Cons y ys)
    with assms(2) have "\<not> inAuthority scheme y" by simp
    with Cons inA show ?thesis by (simp add: dropWhile_append2)
  qed
  show ?thesis unfolding authorityState_def Let_def tw dw ..
qed

lemma origin_preserved:
  assumes oa: "isOriginAuthority scheme authority"
    and site: "URL t (scheme @ ''://'' @ authority) None = Some site"
  shows "\<exists>u. URL t (scheme @ ''://'' @ authority @ CHR ''/'' # p) None = Some u
           \<and> originOf u = originOf site"
proof -
  from oa have sch: "scheme = ''http'' \<or> scheme = ''https''"
    and au: "list_all (\<lambda>c. inAuthority scheme c \<and> \<not> isC0ControlOrSpace c) authority"
    by (simp_all add: isOriginAuthority_def)
  from au have inA: "list_all (inAuthority scheme) authority"
    and nc: "list_all (\<lambda>c. \<not> isC0ControlOrSpace c) authority"
    by (simp_all add: list_all_iff)
  from sch have special: "isSpecialScheme scheme" by (auto simp: isSpecialScheme_def)
  have pre: "list_all (\<lambda>c. \<not> isC0ControlOrSpace c) (scheme @ ''://'' @ authority)"
    using sch nc by (auto simp: isC0ControlOrSpace_def codePoint_def)
  have slash: "\<not> isC0ControlOrSpace CHR ''/''"
    by (simp add: isC0ControlOrSpace_def codePoint_def)
  have ds: "dropWhile isSlash (authority @ r) = authority @ r" if "authority \<noteq> []" for r
  proof (cases authority)
    case Nil
    with that show ?thesis by simp
  next
    case (Cons x xs)
    with inA have "inAuthority scheme x" by simp
    with special have "\<not> isSlash x" by (auto simp: inAuthority_def isSlash_def)
    with Cons show ?thesis by simp
  qed
  have site1: "URL t (scheme @ ''://'' @ authority) None
                 = authorityState t scheme (dropWhile isSlash authority)"
    using parse_special_authority [OF sch clean_id [OF pre], of t] by (simp add: URL_def)
  have ne: "authority \<noteq> []"
  proof
    assume "authority = []"
    with site1 site special show False
      by (simp add: authorityState_def hostState_def Let_def)
  qed
  from site1 site ds [OF ne, of "[]"]
  have s2: "authorityState t scheme (authority @ []) = Some site" by simp
  from clean_prefix [OF pre slash, of p] obtain m
    where cl: "cleanInput ((scheme @ ''://'' @ authority) @ CHR ''/'' # p)
                = (scheme @ ''://'' @ authority) @ CHR ''/'' # m" by blast
  then have "cleanInput (scheme @ ''://'' @ authority @ CHR ''/'' # p)
                = scheme @ ''://'' @ (authority @ CHR ''/'' # m)" by simp
  from parse_special_authority [OF sch this, of t] ds [OF ne]
  have t1: "URL t (scheme @ ''://'' @ authority @ CHR ''/'' # p) None
              = authorityState t scheme (authority @ CHR ''/'' # m)" by (simp add: URL_def)
  have stop: "\<not> inAuthority scheme (hd (CHR ''/'' # m))" by (simp add: inAuthority_def)
  note a0 = authority_split [OF inA, of "[]" t, simplified]
  note a1 = authority_split [OF inA, of "CHR ''/'' # m" t, OF disjI2, OF stop]
  from s2 a0 obtain h q
    where hq: "hostState t scheme (rev (takeWhile (\<lambda>c. c \<noteq> CHR ''@'') (rev authority)))
                 = Some (h, q)"
      and nb: "\<not> (CHR ''@'' \<in> set authority
                  \<and> rev (takeWhile (\<lambda>c. c \<noteq> CHR ''@'') (rev authority)) = [])"
      and sv: "site = mkUrl scheme (Some h) q (pathStartState scheme [])"
    by (auto split: if_splits option.splits)
  from a1 hq nb
  have "authorityState t scheme (authority @ CHR ''/'' # m)
          = Some (mkUrl scheme (Some h) q (pathStartState scheme (CHR ''/'' # m)))"
    by (simp del: rev_is_Nil_conv)
  with t1 sv show ?thesis by (simp add: mkUrl_def originOf_def)
qed

lemma origin_of_path:
  assumes "isOriginAuthority scheme authority"
    and "URL t (scheme @ ''://'' @ authority) None = Some site"
    and "take 1 p = ''/''"
  shows "\<exists>u. URL t ((scheme @ ''://'' @ authority) @ p) None = Some u
           \<and> originOf u = originOf site"
proof -
  from assms(3) obtain q where "p = CHR ''/'' # q" by (cases p) auto
  with origin_preserved [OF assms(1,2), of q] show ?thesis by simp
qed

lemma isValidEmailOtpType_list:
  "isValidEmailOtpType v
     = (v \<in> set (map Some [''signup'', ''invite'', ''magiclink'', ''recovery'',
                              ''email_change'', ''email'']))"
  by (cases v) (auto simp: isValidEmailOtpType_def)

section \<open>The claims\<close>




text \<open>
  C2. A candidate that is not an internal path and whose parsed host is not among the
  allowed hosts resolves to the fallback \<open>/\<close>, whatever its path is; so do the two
  candidates \<open>https://evil.com/steal\<close> and \<open>//evil.com/phish\<close> against the host
  \<open>app.example.com\<close>.
\<close>

theorem resolveRedirectPath_untrusted_host:
  "(\<not> isInternalUrl c \<and> URL t c (Some ''http://localhost'') = Some u \<and> host u \<notin> set H
      \<longrightarrow> resolveRedirectPath t (Some c) H = ''/'')
   \<and> resolveRedirectPath t (Some ''https://evil.com/steal'') [''app.example.com''] = ''/''
   \<and> resolveRedirectPath t (Some ''//evil.com/phish'') [''app.example.com''] = ''/''"
proof (intro conjI impI)
  assume "\<not> isInternalUrl c \<and> URL t c (Some ''http://localhost'') = Some u \<and> host u \<notin> set H"
  then show "resolveRedirectPath t (Some c) H = ''/''"
    by (simp add: resolveRedirectPath_def Let_def)
next
  show "resolveRedirectPath t (Some ''https://evil.com/steal'') [''app.example.com''] = ''/''"
    by code_simp
next
  show "resolveRedirectPath t (Some ''//evil.com/phish'') [''app.example.com''] = ''/''"
    by code_simp
qed

theorem resolveRedirectPath_untrusted_host_witness:
  "\<not> isInternalUrl ''https://evil.com/steal''
   \<and> URL noUnicode ''https://evil.com/steal'' (Some ''http://localhost'')
       = Some \<lparr>urlScheme = ''https'', urlHost = Some ''evil.com'', urlPort = None,
               urlPath = Segments [''steal''], urlQuery = None, urlFragment = None\<rparr>
   \<and> host \<lparr>urlScheme = ''https'', urlHost = Some ''evil.com'', urlPort = None,
               urlPath = Segments [''steal''], urlQuery = None, urlFragment = None\<rparr>
       \<notin> set [''app.example.com'']
   \<and> resolveRedirectPath noUnicode (Some ''https://evil.com/steal'') [''app.example.com''] = ''/''"
proof -
  let ?u = "\<lparr>urlScheme = ''https'', urlHost = Some ''evil.com'', urlPort = None,
               urlPath = Segments [''steal''], urlQuery = None, urlFragment = None\<rparr>"
  have a: "\<not> isInternalUrl ''https://evil.com/steal''" by code_simp
  have b: "URL noUnicode ''https://evil.com/steal'' (Some ''http://localhost'') = Some ?u"
    by code_simp
  have c: "host ?u \<notin> set [''app.example.com'']" by code_simp
  from resolveRedirectPath_untrusted_host
         [of "''https://evil.com/steal''" noUnicode ?u "[''app.example.com'']"] a b c
  have "resolveRedirectPath noUnicode (Some ''https://evil.com/steal'') [''app.example.com'']
          = ''/''" by blast
  with a b c show ?thesis by blast
qed

text \<open>
  C3, as amended. Every redirect of the handler \<open>GET\<close> is the canonical site URL,
  which comes from the configuration through \<open>getSiteUrl\<close> and from no header, followed
  by a path that the handler chooses: after a code exchange or an OTP verification (of a
  valid OTP type) that reports no error, the resolved internal path, wrapped as
  \<open>/auth/loading?next=...\<close> when it is \<open>/reset-password\<close>; otherwise
  \<open>/auth/auth-code-error\<close>. The allowed host is the host of the site URL. When the
  site URL is an http or https origin \<open>scheme://authority\<close>, every redirect target is a
  URL of that origin: for two requests that differ only in their headers, whatever the
  auth service answers to each, the origin of the redirect target is the same, the
  site's. The valid OTP types are signup, invite, magiclink, recovery, email_change and
  email.
\<close>

theorem GET_redirects_to_site:
  assumes "searchParams req' = searchParams req"
    and "GET t cfg auth req = Inr (Redirect target)"
    and "GET t cfg auth req' = Inr (Redirect target')"
  shows "(\<exists>site. URL t (getSiteUrl cfg) None = Some site
            \<and> target = getSiteUrl cfg
                 @ (if authSucceeds auth req
                    then redirectPathFor
                           (resolveRedirectPath t (Some (nextParamOf req)) [host site])
                    else ''/auth/auth-code-error'')
            \<and> target' = getSiteUrl cfg
                 @ (if authSucceeds auth req'
                    then redirectPathFor
                           (resolveRedirectPath t (Some (nextParamOf req)) [host site])
                    else ''/auth/auth-code-error'')
            \<and> (isOriginAuthority scheme authority
                  \<and> getSiteUrl cfg = scheme @ ''://'' @ authority
                \<longrightarrow> (\<exists>u u'. URL t target None = Some u \<and> URL t target' None = Some u'
                          \<and> originOf u = originOf site \<and> originOf u' = originOf site)))
         \<and> redirectPathFor ''/reset-password'' = ''/auth/loading?next=%2Freset-password''
         \<and> (\<forall>v. isValidEmailOtpType v
                  = (v \<in> set (map Some [''signup'', ''invite'', ''magiclink'', ''recovery'',
                                           ''email_change'', ''email''])))"
proof -
  from GET_targets [OF assms(2)] obtain site
    where site: "URL t (getSiteUrl cfg) None = Some site"
      and tg: "target = getSiteUrl cfg
                 @ (if authSucceeds auth req
                    then redirectPathFor
                           (resolveRedirectPath t (Some (nextParamOf req)) [host site])
                    else ''/auth/auth-code-error'')" by blast
  from GET_targets [OF assms(3)] site nextParamOf_cong [OF assms(1)]
  have tg': "target' = getSiteUrl cfg
                 @ (if authSucceeds auth req'
                    then redirectPathFor
                           (resolveRedirectPath t (Some (nextParamOf req)) [host site])
                    else ''/auth/auth-code-error'')" by auto
  let ?R = "redirectPathFor (resolveRedirectPath t (Some (nextParamOf req)) [host site])"
  have sl: "take 1 ?R = ''/''" by (rule redirectPathFor_slash [OF resolve_internal])
  have org: "\<exists>u u'. URL t target None = Some u \<and> URL t target' None = Some u'
                          \<and> originOf u = originOf site \<and> originOf u' = originOf site"
    if h: "isOriginAuthority scheme authority \<and> getSiteUrl cfg = scheme @ ''://'' @ authority"
  proof -
    from h site have oa: "isOriginAuthority scheme authority"
      and ps: "URL t (scheme @ ''://'' @ authority) None = Some site" by simp_all
    have ok: "\<exists>u. URL t (getSiteUrl cfg @ (if b then ?R else ''/auth/auth-code-error'')) None
                     = Some u \<and> originOf u = originOf site" for b
    proof (cases b)
      case True
      with origin_of_path [OF oa ps sl] h show ?thesis by simp
    next
      case False
      have "take 1 ''/auth/auth-code-error'' = ''/''" by simp
      from origin_of_path [OF oa ps this] False h show ?thesis by simp
    qed
    from ok [of "authSucceeds auth req"] ok [of "authSucceeds auth req'"] tg tg'
    show ?thesis by auto
  qed
  have rp: "redirectPathFor ''/reset-password'' = ''/auth/loading?next=%2Freset-password''"
    by code_simp
  from site tg tg' org rp isValidEmailOtpType_list show ?thesis by blast
qed

theorem GET_redirects_to_site_witness:
  "searchParams requestWithoutCookie = searchParams requestWithCookie
   \<and> GET noUnicode exampleConfig cookieAuth requestWithCookie
       = Inr (Redirect ''https://app.example.com/dashboard'')
   \<and> GET noUnicode exampleConfig cookieAuth requestWithoutCookie
       = Inr (Redirect ''https://app.example.com/auth/auth-code-error'')
   \<and> isOriginAuthority ''https'' ''app.example.com''
   \<and> getSiteUrl exampleConfig = ''https'' @ ''://'' @ ''app.example.com''
   \<and> authSucceeds cookieAuth requestWithCookie
   \<and> \<not> authSucceeds cookieAuth requestWithoutCookie
   \<and> (\<exists>site. URL noUnicode (getSiteUrl exampleConfig) None = Some site
         \<and> ''https://app.example.com/dashboard'' = getSiteUrl exampleConfig
               @ (if authSucceeds cookieAuth requestWithCookie
                  then redirectPathFor (resolveRedirectPath noUnicode
                         (Some (nextParamOf requestWithCookie)) [host site])
                  else ''/auth/auth-code-error'')
         \<and> ''https://app.example.com/auth/auth-code-error'' = getSiteUrl exampleConfig
               @ (if authSucceeds cookieAuth requestWithoutCookie
                  then redirectPathFor (resolveRedirectPath noUnicode
                         (Some (nextParamOf requestWithCookie)) [host site])
                  else ''/auth/auth-code-error'')
         \<and> (\<exists>u u'. URL noUnicode ''https://app.example.com/dashboard'' None = Some u
               \<and> URL noUnicode ''https://app.example.com/auth/auth-code-error'' None = Some u'
               \<and> originOf u = originOf site \<and> originOf u' = originOf site))
   \<and> GET noUnicode exampleConfig cookieAuth recoveryRequest
       = Inr (Redirect ''https://app.example.com/dashboard'')
   \<and> GET noUnicode exampleConfig cookieAuth recoveryRequestWithoutCookie
       = Inr (Redirect ''https://app.example.com/auth/auth-code-error'')
   \<and> GET noUnicode exampleConfig cookieAuth unknownTypeRequest
       = Inr (Redirect ''https://app.example.com/auth/auth-code-error'')"
proof -
  have a: "searchParams requestWithoutCookie = searchParams requestWithCookie"
    by (simp add: requestWithoutCookie_def requestWithCookie_def)
  have b: "GET noUnicode exampleConfig cookieAuth requestWithCookie
       = Inr (Redirect ''https://app.example.com/dashboard'')" by code_simp
  have c: "GET noUnicode exampleConfig cookieAuth requestWithoutCookie
       = Inr (Redirect ''https://app.example.com/auth/auth-code-error'')" by code_simp
  have d: "isOriginAuthority ''https'' ''app.example.com''" by code_simp
  have e: "getSiteUrl exampleConfig = ''https'' @ ''://'' @ ''app.example.com''" by code_simp
  have f: "authSucceeds cookieAuth requestWithCookie" by code_simp
  have g: "\<not> authSucceeds cookieAuth requestWithoutCookie" by code_simp
  have h: "GET noUnicode exampleConfig cookieAuth recoveryRequest
       = Inr (Redirect ''https://app.example.com/dashboard'')" by code_simp
  have i: "GET noUnicode exampleConfig cookieAuth recoveryRequestWithoutCookie
       = Inr (Redirect ''https://app.example.com/auth/auth-code-error'')" by code_simp
  have j: "GET noUnicode exampleConfig cookieAuth unknownTypeRequest
       = Inr (Redirect ''https://app.example.com/auth/auth-code-error'')" by code_simp
  from GET_redirects_to_site [OF a b c, of "''https''" "''app.example.com''"] d e
  have k: "\<exists>site. URL noUnicode (getSiteUrl exampleConfig) None = Some site
         \<and> ''https://app.example.com/dashboard'' = getSiteUrl exampleConfig
               @ (if authSucceeds cookieAuth requestWithCookie
                  then redirectPathFor (resolveRedirectPath noUnicode
                         (Some (nextParamOf requestWithCookie)) [host site])
                  else ''/auth/auth-code-error'')
         \<and> ''https://app.example.com/auth/auth-code-error'' = getSiteUrl exampleConfig
               @ (if authSucceeds cookieAuth requestWithoutCookie
                  then redirectPathFor (resolveRedirectPath noUnicode
                         (Some (nextParamOf requestWithCookie)) [host site])
                  else ''/auth/auth-code-error'')
         \<and> (\<exists>u u'. URL noUnicode ''https://app.example.com/dashboard'' None = Some u
               \<and> URL noUnicode ''https://app.example.com/auth/auth-code-error'' None = Some u'
               \<and> originOf u = originOf site \<and> originOf u' = originOf site)"
    by blast
  from a b c d e f g k h i j show ?thesis by (intro conjI)
qed

theorem GET_redirect_is_not_always_the_resolved_path:
  "GET noUnicode exampleConfig cookieAuth requestWithoutCookie
     = Inr (Redirect ''https://app.example.com/auth/auth-code-error'')
   \<and> GET noUnicode exampleConfig cookieAuth resetPasswordRequest
     = Inr (Redirect ''https://app.example.com/auth/loading?next=%2Freset-password'')
   \<and> getSiteUrl exampleConfig
       @ resolveRedirectPath noUnicode (Some (nextParamOf requestWithoutCookie))
           [''app.example.com'']
     = ''https://app.example.com/dashboard''
   \<and> getSiteUrl exampleConfig
       @ resolveRedirectPath noUnicode (Some (nextParamOf resetPasswordRequest))
           [''app.example.com'']
     = ''https://app.example.com/reset-password''
   \<and> searchParams hostLikeNextWithoutCookie = searchParams hostLikeNextWithCookie
   \<and> GET noUnicode pathOnlyConfig cookieAuth hostLikeNextWithCookie
     = Inr (Redirect ''foo://evil.com/x'')
   \<and> GET noUnicode pathOnlyConfig cookieAuth hostLikeNextWithoutCookie
     = Inr (Redirect ''foo://auth/auth-code-error'')
   \<and> map_option host (URL noUnicode ''foo://evil.com/x'' None) = Some ''evil.com''
   \<and> map_option host (URL noUnicode ''foo://auth/auth-code-error'' None) = Some ''auth''"
  by code_simp

text \<open>
  C4. A candidate that reaches the URL parser is one that is not an internal path;
  every absolute URL, which parses without a base, is such a candidate. When it
  parses to a URL whose host is among the allowed hosts, it resolves to the path rebuilt
  from the parsed pathname, search and hash if \<open>isInternalUrl\<close> accepts that path, and to
  the fallback if it does not. \<open>http://app.example.com/dashboard\<close> resolves to
  \<open>/dashboard\<close> against the host \<open>app.example.com\<close>.
\<close>

theorem resolveRedirectPath_trusted_host:
  "(URL t c None = Some a \<longrightarrow> \<not> isInternalUrl c)
   \<and> (\<not> isInternalUrl c \<and> URL t c (Some ''http://localhost'') = Some u \<and> host u \<in> set H
      \<longrightarrow> resolveRedirectPath t (Some c) H
            = (if isInternalUrl (normalizedPath u) then normalizedPath u else ''/''))
   \<and> resolveRedirectPath t (Some ''http://app.example.com/dashboard'') [''app.example.com'']
       = ''/dashboard''"
proof (intro conjI impI)
  assume "URL t c None = Some a"
  then show "\<not> isInternalUrl c" using internal_not_absolute [of c t] by auto
next
  assume "\<not> isInternalUrl c \<and> URL t c (Some ''http://localhost'') = Some u \<and> host u \<in> set H"
  then show "resolveRedirectPath t (Some c) H
            = (if isInternalUrl (normalizedPath u) then normalizedPath u else ''/'')"
    by (simp add: resolve_parsed_any)
next
  show "resolveRedirectPath t (Some ''http://app.example.com/dashboard'') [''app.example.com'']
       = ''/dashboard''" by code_simp
qed

theorem resolveRedirectPath_trusted_host_witness:
  "URL noUnicode ''https://app.example.com/machines/12?tab=issues#top'' None
       = Some \<lparr>urlScheme = ''https'', urlHost = Some ''app.example.com'', urlPort = None,
               urlPath = Segments [''machines'', ''12''], urlQuery = Some ''tab=issues'',
               urlFragment = Some ''top''\<rparr>
   \<and> \<not> isInternalUrl ''https://app.example.com/machines/12?tab=issues#top''
   \<and> URL noUnicode ''https://app.example.com/machines/12?tab=issues#top''
         (Some ''http://localhost'')
       = Some \<lparr>urlScheme = ''https'', urlHost = Some ''app.example.com'', urlPort = None,
               urlPath = Segments [''machines'', ''12''], urlQuery = Some ''tab=issues'',
               urlFragment = Some ''top''\<rparr>
   \<and> host \<lparr>urlScheme = ''https'', urlHost = Some ''app.example.com'', urlPort = None,
               urlPath = Segments [''machines'', ''12''], urlQuery = Some ''tab=issues'',
               urlFragment = Some ''top''\<rparr>
       \<in> set [''localhost:3000'', ''app.example.com'']
   \<and> resolveRedirectPath noUnicode
         (Some ''https://app.example.com/machines/12?tab=issues#top'')
         [''localhost:3000'', ''app.example.com'']
       = ''/machines/12?tab=issues#top''"
proof -
  let ?c = "''https://app.example.com/machines/12?tab=issues#top''"
  let ?u = "\<lparr>urlScheme = ''https'', urlHost = Some ''app.example.com'', urlPort = None,
               urlPath = Segments [''machines'', ''12''], urlQuery = Some ''tab=issues'',
               urlFragment = Some ''top''\<rparr>"
  let ?H = "[''localhost:3000'', ''app.example.com'']"
  note inst = resolveRedirectPath_trusted_host [of noUnicode ?c ?u ?u ?H]
  have abs: "URL noUnicode ?c None = Some ?u" by code_simp
  with inst have a: "\<not> isInternalUrl ?c" by blast
  have b: "URL noUnicode ?c (Some ''http://localhost'') = Some ?u" by code_simp
  have c: "host ?u \<in> set ?H" by code_simp
  have d: "(if isInternalUrl (normalizedPath ?u) then normalizedPath ?u else ''/'')
             = ''/machines/12?tab=issues#top''" by code_simp
  from inst a b c
  have "resolveRedirectPath noUnicode (Some ?c) ?H
          = (if isInternalUrl (normalizedPath ?u) then normalizedPath ?u else ''/'')"
    by blast
  with d have "resolveRedirectPath noUnicode (Some ?c) ?H = ''/machines/12?tab=issues#top''"
    by simp
  with abs a b c show ?thesis by (intro conjI)
qed

text \<open>
  C5. A candidate that \<open>isInternalUrl\<close> accepts is returned unchanged, whatever the
  allowed hosts are; so is \<open>/dashboard?tab=issues#top\<close>.
\<close>

theorem resolveRedirectPath_internal_unchanged:
  "(isInternalUrl c \<longrightarrow> resolveRedirectPath t (Some c) H = c)
   \<and> resolveRedirectPath t (Some ''/dashboard?tab=issues#top'') H = ''/dashboard?tab=issues#top''"
proof (intro conjI impI)
  assume "isInternalUrl c"
  then show "resolveRedirectPath t (Some c) H = c" by (rule resolve_of_internal)
next
  have "isInternalUrl ''/dashboard?tab=issues#top''" by code_simp
  then show "resolveRedirectPath t (Some ''/dashboard?tab=issues#top'') H
               = ''/dashboard?tab=issues#top''" by (rule resolve_of_internal)
qed

theorem resolveRedirectPath_internal_unchanged_witness:
  "isInternalUrl ''/machines/123''
   \<and> resolveRedirectPath noUnicode (Some ''/machines/123'') [''app.example.com'']
       = ''/machines/123''"
proof -
  have a: "isInternalUrl ''/machines/123''" by code_simp
  from resolveRedirectPath_internal_unchanged
         [of "''/machines/123''" noUnicode "[''app.example.com'']"] a
  show ?thesis by blast
qed



text \<open>
  C7. Resolving the result of \<open>resolveRedirectPath\<close> again, against the same allowed
  hosts, gives the same result.
\<close>

theorem resolveRedirectPath_idempotent:
  "resolveRedirectPath t (Some (resolveRedirectPath t np H)) H = resolveRedirectPath t np H"
  by (rule resolve_of_internal [OF resolve_internal])

theorem resolveRedirectPath_idempotent_witness:
  "resolveRedirectPath noUnicode
     (Some (resolveRedirectPath noUnicode (Some ''http://app.example.com/a/../b'')
        [''app.example.com''])) [''app.example.com'']
   = resolveRedirectPath noUnicode (Some ''http://app.example.com/a/../b'') [''app.example.com'']"
  by (rule resolveRedirectPath_idempotent)

text \<open>
  C8, as amended. The empty candidate resolves to the fallback \<open>/\<close> for every list of
  allowed hosts: the first guard of the resolver, \<open>!nextParam\<close>, holds of the empty
  string as it does of null, before \<open>isInternalUrl\<close> is asked.
\<close>

theorem resolveRedirectPath_empty: "resolveRedirectPath t (Some []) H = ''/''"
  by (simp add: resolveRedirectPath_def)

theorem resolveRedirectPath_empty_witness:
  "resolveRedirectPath noUnicode (Some []) [''app.example.com''] = ''/''"
  by (rule resolveRedirectPath_empty)

theorem empty_candidate_is_not_returned:
  "resolveRedirectPath noUnicode (Some []) [''app.example.com''] = ''/''
   \<and> resolveRedirectPath noUnicode (Some []) [''app.example.com''] \<noteq> []"
  by code_simp

text \<open>
  C9, as amended. Take a candidate that, once the URL parser has stripped its leading
  and trailing C0 controls and spaces and removed its tabs and newlines, has no scheme
  and starts with neither a slash nor a backslash (\<open>dashboard\<close> is one). It parses
  against the base \<open>http://localhost\<close> to a URL whose host is \<open>localhost\<close>. If
  \<open>localhost\<close> is among the allowed hosts, the result is the path rebuilt from the
  parsed pathname, search and hash when \<open>isInternalUrl\<close> accepts it, and the fallback
  when it does not; if \<open>localhost\<close> is not among them, the result is the fallback.
\<close>

theorem resolveRedirectPath_relative:
  assumes "schemeOf (cleanInput c) = None"
    and "case cleanInput c of [] \<Rightarrow> True | d # ds \<Rightarrow> \<not> isSlash d"
  shows "\<exists>u. URL t c (Some ''http://localhost'') = Some u \<and> host u = ''localhost''
           \<and> resolveRedirectPath t (Some c) H
             = (if ''localhost'' \<in> set H \<and> isInternalUrl (normalizedPath u)
                then normalizedPath u else ''/'')"
proof -
  from relative_host [OF assms] obtain u
    where u: "URL t c (Some ''http://localhost'') = Some u" "host u = ''localhost''" by blast
  have "\<not> isInternalUrl c" by (rule not_internal_of_clean [OF assms(2)])
  with u show ?thesis by (simp add: resolve_parsed_any)
qed

theorem resolveRedirectPath_relative_witness:
  "schemeOf (cleanInput ''dashboard'') = None
   \<and> (case cleanInput ''dashboard'' of [] \<Rightarrow> True | d # ds \<Rightarrow> \<not> isSlash d)
   \<and> (\<exists>u. URL noUnicode ''dashboard'' (Some ''http://localhost'') = Some u
         \<and> host u = ''localhost''
         \<and> resolveRedirectPath noUnicode (Some ''dashboard'') [''localhost'']
           = (if ''localhost'' \<in> set [''localhost''] \<and> isInternalUrl (normalizedPath u)
              then normalizedPath u else ''/''))
   \<and> resolveRedirectPath noUnicode (Some ''dashboard'') [''localhost''] = ''/dashboard''"
proof -
  have a: "schemeOf (cleanInput ''dashboard'') = None" by code_simp
  have b: "case cleanInput ''dashboard'' of [] \<Rightarrow> True | d # ds \<Rightarrow> \<not> isSlash d"
    by code_simp
  have c: "resolveRedirectPath noUnicode (Some ''dashboard'') [''localhost''] = ''/dashboard''"
    by code_simp
  from a b c resolveRedirectPath_relative [OF a b, of noUnicode "[''localhost'']"]
  show ?thesis by (intro conjI)
qed

theorem backslash_candidate_leaves_localhost:
  "take 1 backslashCandidate \<noteq> ''/''
   \<and> schemeOf (cleanInput backslashCandidate) = None
   \<and> map_option host (URL noUnicode backslashCandidate (Some ''http://localhost''))
       = Some ''app.example.com''
   \<and> ''localhost'' \<notin> set [''app.example.com'']
   \<and> resolveRedirectPath noUnicode (Some backslashCandidate) [''app.example.com''] = ''/x''
   \<and> take 1 ''.//y'' \<noteq> ''/''
   \<and> schemeOf (cleanInput ''.//y'') = None
   \<and> resolveRedirectPath noUnicode (Some ''.//y'') [''localhost''] = ''/''"
  by code_simp

text \<open>
  C10, as amended. A candidate that starts with two slashes is never an internal path,
  so it is handed to the URL parser and is not rejected without being parsed. For a
  plain host name \<open>h\<close> among the allowed hosts, the candidate \<open>//h/p\<close> parses to a URL
  whose host is \<open>h\<close>, and the result is the path rebuilt from the parsed pathname,
  search and hash if \<open>isInternalUrl\<close> accepts it, and the fallback if it does not.
  Whatever follows the two slashes, the result is the fallback when the candidate does
  not parse or parses to a host that is not allowed.
  \<open>//app.example.com/dashboard?tab=issues#top\<close> resolves to
  \<open>/dashboard?tab=issues#top\<close> against the host \<open>app.example.com\<close>.
\<close>

theorem resolveRedirectPath_protocol_relative:
  "(isPlainHost h \<and> h \<in> set H \<longrightarrow>
      (\<exists>u. URL t (''//'' @ h @ ''/'' @ p) (Some ''http://localhost'') = Some u \<and> host u = h
         \<and> resolveRedirectPath t (Some (''//'' @ h @ ''/'' @ p)) H
             = (if isInternalUrl (normalizedPath u) then normalizedPath u else ''/'')))
   \<and> \<not> isInternalUrl (''//'' @ r)
   \<and> resolveRedirectPath t (Some (''//'' @ r)) H
       = (case URL t (''//'' @ r) (Some ''http://localhost'') of
            None \<Rightarrow> ''/''
          | Some u \<Rightarrow>
              if host u \<in> set H \<and> isInternalUrl (normalizedPath u) then normalizedPath u
              else ''/'')
   \<and> resolveRedirectPath t (Some ''//app.example.com/dashboard?tab=issues#top'')
         [''app.example.com'']
       = ''/dashboard?tab=issues#top''"
proof (intro conjI impI)
  have ni: "\<not> isInternalUrl (''//'' @ x)" for x by (simp add: isInternalUrl_def)
  show "\<not> isInternalUrl (''//'' @ r)" by (rule ni)
  show "resolveRedirectPath t (Some (''//'' @ r)) H
       = (case URL t (''//'' @ r) (Some ''http://localhost'') of
            None \<Rightarrow> ''/''
          | Some u \<Rightarrow>
              if host u \<in> set H \<and> isInternalUrl (normalizedPath u) then normalizedPath u
              else ''/'')"
    using ni [of r] by (simp add: resolveRedirectPath_def Let_def split: option.splits)
  show "resolveRedirectPath t (Some ''//app.example.com/dashboard?tab=issues#top'')
         [''app.example.com'']
       = ''/dashboard?tab=issues#top''" by code_simp
  assume h: "isPlainHost h \<and> h \<in> set H"
  then obtain u
    where u: "URL t (''//'' @ h @ ''/'' @ p) (Some ''http://localhost'') = Some u" "host u = h"
    using protocol_relative_parse [of h t p] by blast
  from resolve_parsed_any [OF ni [of "h @ ''/'' @ p"] u(1), of H] u(2) h
  have "resolveRedirectPath t (Some (''//'' @ h @ ''/'' @ p)) H
          = (if isInternalUrl (normalizedPath u) then normalizedPath u else ''/'')"
    by simp
  with u show "\<exists>u. URL t (''//'' @ h @ ''/'' @ p) (Some ''http://localhost'') = Some u
         \<and> host u = h
         \<and> resolveRedirectPath t (Some (''//'' @ h @ ''/'' @ p)) H
             = (if isInternalUrl (normalizedPath u) then normalizedPath u else ''/'')"
    by blast
qed

theorem resolveRedirectPath_protocol_relative_witness:
  "isPlainHost ''app.example.com''
   \<and> ''app.example.com'' \<in> set [''localhost:3000'', ''app.example.com'']
   \<and> (\<exists>u. URL noUnicode (''//'' @ ''app.example.com'' @ ''/'' @ ''machines/12'')
              (Some ''http://localhost'') = Some u
         \<and> host u = ''app.example.com''
         \<and> resolveRedirectPath noUnicode
               (Some (''//'' @ ''app.example.com'' @ ''/'' @ ''machines/12''))
               [''localhost:3000'', ''app.example.com'']
             = (if isInternalUrl (normalizedPath u) then normalizedPath u else ''/''))
   \<and> resolveRedirectPath noUnicode (Some ''//app.example.com/machines/12'')
         [''localhost:3000'', ''app.example.com'']
       = ''/machines/12''"
proof -
  have a: "isPlainHost ''app.example.com''" by code_simp
  have b: "''app.example.com'' \<in> set [''localhost:3000'', ''app.example.com'']" by simp
  have c: "resolveRedirectPath noUnicode (Some ''//app.example.com/machines/12'')
         [''localhost:3000'', ''app.example.com''] = ''/machines/12''" by code_simp
  from resolveRedirectPath_protocol_relative
         [of "''app.example.com''" "[''localhost:3000'', ''app.example.com'']" noUnicode
             "''machines/12''"] a b
  have "\<exists>u. URL noUnicode (''//'' @ ''app.example.com'' @ ''/'' @ ''machines/12'')
              (Some ''http://localhost'') = Some u
         \<and> host u = ''app.example.com''
         \<and> resolveRedirectPath noUnicode
               (Some (''//'' @ ''app.example.com'' @ ''/'' @ ''machines/12''))
               [''localhost:3000'', ''app.example.com'']
             = (if isInternalUrl (normalizedPath u) then normalizedPath u else ''/'')"
    by blast
  with a b c show ?thesis by (intro conjI)
qed

theorem trusted_protocol_relative_falls_back:
  "resolveRedirectPath noUnicode (Some ''//app.example.com//x'') [''app.example.com''] = ''/''
   \<and> map_option host (URL noUnicode ''//app.example.com//x'' (Some ''http://localhost''))
       = Some ''app.example.com''
   \<and> map_option pathname (URL noUnicode ''//app.example.com//x'' (Some ''http://localhost''))
       = Some ''//x''"
  by code_simp

end
